theory Spec2Isabelle
  imports Main "HOL-Library.Sublist" "HOL-Library.AList"
begin

section \<open>The query engine: the pure functions of tests.js\<close>

subsection \<open>JavaScript arithmetic and string helpers\<close>

text \<open>
  The operator \<^verbatim>\<open>%\<close> of JavaScript on integers: the result has the sign of the
  dividend. The divisors of the program are the constants 60, 24 and 12.
\<close>

definition js_rem :: "int \<Rightarrow> int \<Rightarrow> int" where
  "js_rem a b = (if a < 0 then - ((- a) mod \<bar>b\<bar>) else a mod \<bar>b\<bar>)"

text \<open>\<^verbatim>\<open>Number.prototype.toString\<close> on an integer: its decimal digits.\<close>

fun digits :: "nat \<Rightarrow> string" where
  "digits n = (if n < 10 then [''0123456789'' ! n]
               else digits (n div 10) @ [''0123456789'' ! (n mod 10)])"

declare digits.simps [simp del]

definition toString :: "int \<Rightarrow> string" where
  "toString i = (if i < 0 then ''-'' @ digits (nat (- i)) else digits (nat i))"

text \<open>\<^verbatim>\<open>String.prototype.padStart\<close> with a one-character filler.\<close>

definition padStart :: "nat \<Rightarrow> char \<Rightarrow> string \<Rightarrow> string" where
  "padStart targetLength c str = replicate (targetLength - length str) c @ str"

subsection \<open>Division of numbers\<close>

text \<open>
  A JavaScript number is an IEEE 754 double: every integer up to \<open>2 ^ 53\<close> in absolute
  value is one, and beyond that only the multiples of the power of two that leaves a
  53-bit significand.
\<close>

function bitlen :: "int \<Rightarrow> nat" where
  "bitlen n = (if n \<le> 0 then 0 else Suc (bitlen (n div 2)))"
  by pat_completeness auto
termination
  by (relation "measure nat") auto

declare bitlen.simps [simp del]

definition isDouble :: "int \<Rightarrow> bool" where
  "isDouble x \<longleftrightarrow>
     bitlen \<bar>x\<bar> \<le> 53 \<or> (bitlen \<bar>x\<bar> \<le> 1024 \<and> 2 ^ (bitlen \<bar>x\<bar> - 53) dvd \<bar>x\<bar>)"

text \<open>The quotient \<open>a / b\<close> of two positive integers, rounded to the nearest integer, ties to even.\<close>

definition rne :: "int \<Rightarrow> int \<Rightarrow> int" where
  "rne a b =
     (let q = a div b; r = a mod b
      in if 2 * r < b then q else if b < 2 * r then q + 1 else if even q then q else q + 1)"

text \<open>
  \<^verbatim>\<open>Math.floor(x / d)\<close> for an integer \<open>x\<close> and a positive integer \<open>d\<close>. The division
  rounds the exact quotient to a double: with \<open>2 ^ j \<le> \<bar>x\<bar> / d < 2 ^ (j + 1)\<close>, to the
  nearest multiple of \<open>2 ^ (j - 52)\<close>, ties to the even significand. \<^verbatim>\<open>Math.floor\<close> of that
  double is exact.
\<close>

definition floorDiv :: "int \<Rightarrow> int \<Rightarrow> int" where
  "floorDiv x d =
     (let a = \<bar>x\<bar>; sg = (if x < 0 then - 1 else 1)
      in if a < d then (if x < 0 then - 1 else 0)
         else
           let j = bitlen (a div d) - 1
           in if 52 \<le> j
              then sg * (rne a (d * 2 ^ (j - 52)) * 2 ^ (j - 52))
              else (sg * rne (a * 2 ^ (52 - j)) d) div 2 ^ (52 - j))"

subsection \<open>formatTime\<close>

text \<open>
  \<^verbatim>\<open>
  function formatTime(minutes) {
    let h = Math.floor(minutes / 60) % 24;
    const m = minutes % 60;
    const ampm = h >= 12 ? 'pm' : 'am';
    h = h % 12 || 12;
    return `${h}:${m.toString().padStart(2, '0')}${ampm}`;
  }
  \<close>
  The argument is an integer that a number holds. \<^verbatim>\<open>minutes / 60\<close> is the rounded
  division of doubles; the remainders are exact on doubles; \<^verbatim>\<open>h % 12 || 12\<close> replaces a
  zero remainder by 12.
\<close>

definition formatTime :: "int \<Rightarrow> string" where
  "formatTime minutes =
     (let h = js_rem (floorDiv minutes 60) 24;
          m = js_rem minutes 60;
          ampm = (if h \<ge> 12 then ''pm'' else ''am'');
          h' = (if js_rem h 12 = 0 then 12 else js_rem h 12)
      in toString h' @ '':'' @ padStart 2 (CHR ''0'') (toString m) @ ampm)"

subsection \<open>getCurrentMinutes\<close>

text \<open>
  \<^verbatim>\<open>
  function getCurrentMinutes(hoursOverride = null, minutesOverride = null) {
    const now = new Date();
    const hours = hoursOverride !== null ? hoursOverride : now.getHours();
    const mins = minutesOverride !== null ? minutesOverride : now.getMinutes();
    const totalMins = hours * 60 + mins;
    return totalMins < 180 ? totalMins + 24 * 60 : totalMins;
  }
  \<close>
  The clock is read once; its local hour and minute are the first two arguments of the
  model. An override that is \<^verbatim>\<open>null\<close> is \<open>None\<close>.
\<close>

definition getCurrentMinutes :: "int \<Rightarrow> int \<Rightarrow> int option \<Rightarrow> int option \<Rightarrow> int" where
  "getCurrentMinutes nowHours nowMinutes hoursOverride minutesOverride =
     (let hours = (case hoursOverride of Some v \<Rightarrow> v | None \<Rightarrow> nowHours);
          mins = (case minutesOverride of Some v \<Rightarrow> v | None \<Rightarrow> nowMinutes);
          totalMins = hours * 60 + mins
      in if totalMins < 180 then totalMins + 24 * 60 else totalMins)"

subsection \<open>filterTrainsByDestination\<close>

text \<open>
  A departure is the positional array \<^verbatim>\<open>[minute, trainNumber, routeType, serviceType]\<close>
  of the snapshot. The numbers of the arrays are integers.
\<close>

type_synonym train = "int \<times> string \<times> int \<times> int"

definition minute :: "train \<Rightarrow> int" where
  "minute t = fst t"

definition trainNumber :: "train \<Rightarrow> string" where
  "trainNumber t = fst (snd t)"

definition serviceType :: "train \<Rightarrow> int" where
  "serviceType t = snd (snd (snd t))"

definition endOfDay :: int where
  "endOfDay = 24 * 60 + 120"

text \<open>
  \<^verbatim>\<open>
  const destTrainNums = new Set(
    destTrains.filter(t => t[3] === serviceFilter).map(t => t[1]));
  \<close>
\<close>

definition destTrainNums :: "train list \<Rightarrow> int \<Rightarrow> string set" where
  "destTrainNums destTrains serviceFilter =
     set (map (\<lambda>t. fst (snd t)) (filter (\<lambda>t. snd (snd (snd t)) = serviceFilter) destTrains))"

text \<open>
  \<^verbatim>\<open>
  return originTrains.filter(t => {
    const [time, trainNum, , svc] = t;
    return svc === serviceFilter && time >= currentMinutes &&
           time <= endOfDay && destTrainNums.has(trainNum);
  });
  \<close>
\<close>

definition filterTrainsByDestination :: "train list \<Rightarrow> train list \<Rightarrow> int \<Rightarrow> int \<Rightarrow> train list" where
  "filterTrainsByDestination originTrains destTrains serviceFilter currentMinutes =
     filter (\<lambda>(time, trainNum, rt, svc).
               svc = serviceFilter \<and> time \<ge> currentMinutes \<and> time \<le> endOfDay \<and>
               trainNum \<in> destTrainNums destTrains serviceFilter)
            originTrains"

text \<open>The sample data of the test file.\<close>

definition sampleOriginTrains :: "train list" where
  "sampleOriginTrains =
     [(310, ''101'', 0, 0), (344, ''102'', 0, 0), (400, ''201'', 0, 1),
      (450, ''202'', 0, 1), (500, ''M101'', 0, 2), (1454, ''664'', 0, 1)]"

definition sampleDestTrains :: "train list" where
  "sampleDestTrains =
     [(330, ''101'', 0, 0), (420, ''201'', 0, 1), (520, ''M101'', 0, 2), (1474, ''664'', 0, 1)]"

subsection \<open>getServiceType\<close>

text \<open>
  A \<^verbatim>\<open>Date\<close> is its time value, the milliseconds since 1970-01-01T00:00:00Z. The time
  zone of the host is the offset of local time from UTC, in milliseconds, at a UTC instant.
  The accessors are those of ECMAScript: \<^verbatim>\<open>getHours\<close> and \<^verbatim>\<open>getDay\<close> read the local
  time, \<^verbatim>\<open>toISOString\<close> writes the UTC time.
\<close>

type_synonym zone = "int \<Rightarrow> int"

definition msPerDay :: int where
  "msPerDay = 86400000"

definition msPerHour :: int where
  "msPerHour = 3600000"

definition maxTime :: int where
  "maxTime = 8640000000000000"

definition LocalTime :: "zone \<Rightarrow> int \<Rightarrow> int" where
  "LocalTime tz t = t + tz t"

definition getHours :: "zone \<Rightarrow> int \<Rightarrow> int" where
  "getHours tz t = (LocalTime tz t div msPerHour) mod 24"

definition getDay :: "zone \<Rightarrow> int \<Rightarrow> int" where
  "getDay tz t = (LocalTime tz t div msPerDay + 4) mod 7"

text \<open>
  The year, month and day of the month of a day number (days since 1970-01-01) in the
  proleptic Gregorian calendar, by eras of 400 years that start on 1 March.
\<close>

definition civil :: "int \<Rightarrow> int \<times> int \<times> int" where
  "civil z0 =
     (let z = z0 + 719468;
          era = z div 146097;
          doe = z - era * 146097;
          yoe = (doe - doe div 1460 + doe div 36524 - doe div 146096) div 365;
          doy = doe - (365 * yoe + yoe div 4 - yoe div 100);
          mp = (5 * doy + 2) div 153;
          d = doy - (153 * mp + 2) div 5 + 1;
          m = (if mp < 10 then mp + 3 else mp - 9);
          y = yoe + era * 400
      in (if m \<le> 2 then y + 1 else y, m, d))"

definition pad :: "nat \<Rightarrow> int \<Rightarrow> string" where
  "pad w i = padStart w (CHR ''0'') (toString i)"

text \<open>
  \<^verbatim>\<open>Date.prototype.toISOString\<close>: four digits for the years 0 to 9999, a sign and six
  digits otherwise.
\<close>

definition toISOString :: "int \<Rightarrow> string" where
  "toISOString t =
     (case civil (t div msPerDay) of (y, m, d) \<Rightarrow>
        (if 0 \<le> y \<and> y \<le> 9999 then pad 4 y
         else (if y < 0 then ''-'' else ''+'') @ pad 6 \<bar>y\<bar>)
        @ ''-'' @ pad 2 m @ ''-'' @ pad 2 d @ ''T''
        @ pad 2 (t div msPerHour mod 24) @ '':'' @ pad 2 (t div 60000 mod 60) @ '':''
        @ pad 2 (t div 1000 mod 60) @ ''.'' @ pad 3 (t mod 1000) @ ''Z'')"

datatype error = RangeError

text \<open>
  A value of the holiday object: the number of the tests (1 or 2), or the boolean that
  the compactor writes.
\<close>

datatype jsval = JNum int | JBool bool

text \<open>
  \<^verbatim>\<open>
  function getServiceType(date, holidays = {}) {
    let now = new Date(date);
    if (now.getHours() < 3) {
      now = new Date(now.getTime() - 24 * 60 * 60 * 1000);
    }
    const dateStr = now.toISOString().slice(0, 10).replace(/-/g, '');
    const day = now.getDay();
    const holidayType = holidays[dateStr];
    if (holidayType === 2) { return 'modified'; }
    if (holidayType === 1) { return 'weekend'; }
    if (day === 0 || day === 6) { return 'weekend'; }
    return 'weekday';
  }
  \<close>
  The argument is the time value of \<^verbatim>\<open>new Date(date)\<close>. A time value beyond
  \<open>maxTime\<close> is an invalid date, on which \<^verbatim>\<open>toISOString\<close> throws a RangeError (and
  \<^verbatim>\<open>getHours\<close> is NaN, so that nothing is subtracted).
\<close>

definition getServiceType :: "zone \<Rightarrow> int \<Rightarrow> (string \<rightharpoonup> jsval) \<Rightarrow> error + string" where
  "getServiceType tz date' holidays' =
     (if \<bar>date'\<bar> > maxTime then Inl RangeError
      else
        let now = (if getHours tz date' < 3 then date' - 24 * 60 * 60 * 1000 else date')
        in if \<bar>now\<bar> > maxTime then Inl RangeError
           else
             let dateStr = filter (\<lambda>c. c \<noteq> CHR ''-'') (take 10 (toISOString now));
                 day = getDay tz now;
                 holidayType = holidays' dateStr
             in if holidayType = Some (JNum 2) then Inr ''modified''
                else if holidayType = Some (JNum 1) then Inr ''weekend''
                else if day = 0 \<or> day = 6 then Inr ''weekend''
                else Inr ''weekday'')"

text \<open>The holiday object of the test file.\<close>

definition testHolidays :: "string \<rightharpoonup> jsval" where
  "testHolidays =
     [''20260119'' \<mapsto> JNum 2, ''20260101'' \<mapsto> JNum 1,
      ''20251225'' \<mapsto> JNum 1, ''20251224'' \<mapsto> JNum 2]"

text \<open>
  The calendar date that the specification classifies: the local date of an instant,
  written as the keys of the holiday map are. This is the notion of the specification,
  not a function of the program.
\<close>

definition localDateKey :: "zone \<Rightarrow> int \<Rightarrow> string" where
  "localDateKey tz t = filter (\<lambda>c. c \<noteq> CHR ''-'') (take 10 (toISOString (LocalTime tz t)))"

text \<open>Pacific Standard Time, the zone of the railway in winter: eight hours behind UTC.\<close>

definition pacificStandard :: zone where
  "pacificStandard = (\<lambda>t. - 8 * 3600000)"

section \<open>The feed compactor: process-gtfs.js\<close>

subsection \<open>The feed tables\<close>

text \<open>
  A row of a table is the object that \<^verbatim>\<open>parseCSV\<close> returns, with the columns that the
  compactor reads. The columns that the program converts to numbers hold the converted
  number: \<^verbatim>\<open>parseInt(direction_id)\<close> and \<^verbatim>\<open>parseInt(exception_type)\<close>, where \<open>None\<close> is
  NaN, and the hour and the minute of \<^verbatim>\<open>departure_time.split(':').map(Number)\<close>. In this
  model of process-gtfs.js the hour and the minute are integers: it covers the feeds whose
  departure times are numbers and whose identifiers are no property names of
  \<^verbatim>\<open>Object.prototype\<close>. The model of the three-way compactor further down has NaN times
  as well and names the identifiers it excludes.
\<close>

record stop =
  stop_id :: string
  parent_station :: string

record trip =
  trip_id :: string
  service_id :: string
  direction_id :: "int option"
  trip_headsign :: string
  route_id :: string
  trip_short_name :: string

record route =
  r_route_id :: string
  route_short_name :: string
  route_color :: string

record calendar_row =
  c_service_id :: string
  monday :: string
  saturday :: string
  start_date :: string
  end_date :: string

record calendar_date =
  cd_date :: string
  cd_service_id :: string
  cd_exception_type :: "int option"
  cd_holiday_name :: string

record stop_time =
  st_trip_id :: string
  st_stop_id :: string
  departure_h :: int
  departure_m :: int

record feed =
  stops :: "stop list"
  trips :: "trip list"
  stopTimes :: "stop_time list"
  calendar :: "calendar_row list"
  calendarDates :: "calendar_date list"
  routes :: "route list"

subsection \<open>The lookup tables\<close>

text \<open>
  A JavaScript object used as a dictionary is an association list: an assignment to a
  new key appends it, an assignment to a present key replaces its value in place. (Keys
  are the identifiers of a feed, none of them a property of \<^verbatim>\<open>Object.prototype\<close>.)
\<close>

type_synonym 'v obj = "(string \<times> 'v) list"

record trip_info =
  serviceId :: string
  direction :: "int option"
  headsign :: string
  routeId :: string
  trainNum :: string

record route_info =
  ri_name :: string
  ri_color :: string

record service =
  weekday :: bool
  weekend :: bool
  startDate :: string
  endDate :: string

record exception =
  ex_type :: "int option"
  ex_name :: string

definition stopToStation :: "stop list \<Rightarrow> string obj" where
  "stopToStation ss =
     fold (\<lambda>s m. if parent_station s \<noteq> [] then AList.update (stop_id s) (parent_station s) m
                  else m) ss []"

definition tripInfo :: "trip list \<Rightarrow> trip_info obj" where
  "tripInfo ts =
     fold (\<lambda>t m. AList.update (trip_id t)
                    \<lparr>serviceId = service_id t, direction = direction_id t,
                     headsign = trip_headsign t, routeId = route_id t,
                     trainNum = trip_short_name t\<rparr> m) ts []"

definition routeInfo :: "route list \<Rightarrow> route_info obj" where
  "routeInfo rs =
     fold (\<lambda>r m. AList.update (r_route_id r)
                    \<lparr>ri_name = route_short_name r, ri_color = route_color r\<rparr> m) rs []"

text \<open>
  \<^verbatim>\<open>
  calendar.forEach(c => {
    services[c.service_id] = {
      weekday: c.monday === '1', weekend: c.saturday === '1',
      startDate: c.start_date, endDate: c.end_date };
  });
  \<close>
\<close>

definition services :: "calendar_row list \<Rightarrow> service obj" where
  "services cal =
     fold (\<lambda>c m. AList.update (c_service_id c)
                    \<lparr>weekday = (monday c = ''1''), weekend = (saturday c = ''1''),
                     startDate = start_date c, endDate = end_date c\<rparr> m) cal []"

text \<open>
  \<^verbatim>\<open>
  calendarDates.forEach(cd => {
    if (!holidays[cd.date]) holidays[cd.date] = {};
    holidays[cd.date][cd.service_id] = {
      type: parseInt(cd.exception_type), name: cd.holiday_name };
  });
  \<close>
\<close>

definition addException :: "calendar_date \<Rightarrow> exception obj obj \<Rightarrow> exception obj obj" where
  "addException cd hs =
     (let inner = (case map_of hs (cd_date cd) of None \<Rightarrow> [] | Some m \<Rightarrow> m)
      in AList.update (cd_date cd)
           (AList.update (cd_service_id cd)
              \<lparr>ex_type = cd_exception_type cd, ex_name = cd_holiday_name cd\<rparr> inner) hs)"

definition holidays :: "calendar_date list \<Rightarrow> exception obj obj" where
  "holidays cds = fold addException cds []"

subsection \<open>The schedule\<close>

record entry =
  e_t :: int
  e_n :: string
  e_r :: string
  e_s :: string
  e_h :: string

record buckets =
  northbound :: "entry list"
  southbound :: "entry list"

text \<open>
  \<^verbatim>\<open>
  const serviceType = service?.weekday ? 'weekday'
                    : (service?.weekend ? 'weekend' : 'holiday');
  \<close>
  on the result of \<^verbatim>\<open>services[trip.serviceId]\<close>, which is undefined for a service that
  the calendar table does not have.
\<close>

definition classifyService :: "service option \<Rightarrow> string" where
  "classifyService sv =
     (if (case sv of Some v \<Rightarrow> weekday v | None \<Rightarrow> False) then ''weekday''
      else if (case sv of Some v \<Rightarrow> weekend v | None \<Rightarrow> False) then ''weekend''
      else ''holiday'')"

text \<open>
  The body of \<^verbatim>\<open>stopTimes.forEach\<close>: a stop time whose trip or whose parent station is
  unknown is skipped; the others are pushed on the list of their station and direction.
  \<^verbatim>\<open>
  const trip = tripInfo[st.trip_id];
  if (!trip) return;
  const stationId = stopToStation[st.stop_id];
  if (!stationId) return;
  const direction = trip.direction === 0 ? 'northbound' : 'southbound';
  const service = services[trip.serviceId];
  const serviceType = ...;
  if (!schedule[stationId]) schedule[stationId] = { northbound: [], southbound: [] };
  const [h, m] = st.departure_time.split(':').map(Number);
  const minutes = h * 60 + m;
  schedule[stationId][direction].push({
    t: minutes, n: trip.trainNum, r: routeInfo[trip.routeId]?.name || 'Local',
    s: serviceType, h: trip.headsign });
  \<close>
\<close>

definition addStopTime ::
  "trip_info obj \<Rightarrow> string obj \<Rightarrow> service obj \<Rightarrow> route_info obj \<Rightarrow>
   stop_time \<Rightarrow> buckets obj \<Rightarrow> buckets obj" where
  "addStopTime tripInfo' stopToStation' services' routeInfo' st schedule =
     (case map_of tripInfo' (st_trip_id st) of
        None \<Rightarrow> schedule
      | Some trip' \<Rightarrow>
         (case map_of stopToStation' (st_stop_id st) of
            None \<Rightarrow> schedule
          | Some stationId \<Rightarrow>
             let direction' = (if direction trip' = Some 0 then ''northbound'' else ''southbound'');
                 service' = map_of services' (serviceId trip');
                 serviceType' = classifyService service';
                 b = (case map_of schedule stationId of
                        None \<Rightarrow> \<lparr>northbound = [], southbound = []\<rparr>
                      | Some b' \<Rightarrow> b');
                 minutes = departure_h st * 60 + departure_m st;
                 item = \<lparr>e_t = minutes, e_n = trainNum trip',
                         e_r = (case map_of routeInfo' (routeId trip') of
                                  None \<Rightarrow> ''Local''
                                | Some ri \<Rightarrow> if ri_name ri = [] then ''Local'' else ri_name ri),
                         e_s = serviceType', e_h = headsign trip'\<rparr>
             in AList.update stationId
                  (if direction' = ''northbound''
                   then b\<lparr>northbound := northbound b @ [item]\<rparr>
                   else b\<lparr>southbound := southbound b @ [item]\<rparr>)
                  schedule))"

definition buildSchedule :: "feed \<Rightarrow> buckets obj" where
  "buildSchedule f =
     fold (addStopTime (tripInfo (trips f)) (stopToStation (stops f)) (services (calendar f))
             (routeInfo (routes f)))
          (stopTimes f) []"

text \<open>
  \<^verbatim>\<open>
  schedule[stationId][dir] = schedule[stationId][dir]
    .sort((a, b) => a.t - b.t)
    .filter((item, idx, arr) =>
      idx === 0 || item.t !== arr[idx-1].t || item.n !== arr[idx-1].n);
  \<close>
  The sort of an array is stable (ECMAScript 2019), as \<open>sort_key\<close> is. The filter
  compares each item with its predecessor in the sorted array \<^verbatim>\<open>arr\<close>.
\<close>

definition dedupe :: "entry list \<Rightarrow> entry list" where
  "dedupe arr =
     map snd (filter (\<lambda>(idx, item). idx = 0 \<or> e_t item \<noteq> e_t (arr ! (idx - 1))
                                       \<or> e_n item \<noteq> e_n (arr ! (idx - 1)))
                (enumerate 0 arr))"

definition sortAndDedupe :: "buckets obj \<Rightarrow> buckets obj" where
  "sortAndDedupe schedule =
     map (\<lambda>(stationId, b).
            (stationId, \<lparr>northbound = dedupe (sort_key e_t (northbound b)),
                         southbound = dedupe (sort_key e_t (southbound b))\<rparr>)) schedule"

subsection \<open>The compact snapshot\<close>

definition routeTypeMap :: "int obj" where
  "routeTypeMap =
     [(''Local Weekday'', 0), (''Local Weekend'', 0), (''Local'', 0), (''Limited'', 1),
      (''Express'', 2), (''South County'', 3)]"

text \<open>
  \<^verbatim>\<open>
  t => [ t.t, t.n, routeTypeMap[t.r] ?? 0, t.s === 'weekday' ? 0 : 1 ]
  \<close>
\<close>

definition compactEntry :: "entry \<Rightarrow> train" where
  "compactEntry t =
     (e_t t, e_n t, (case map_of routeTypeMap (e_r t) of Some v \<Rightarrow> v | None \<Rightarrow> 0),
      if e_s t = ''weekday'' then 0 else 1)"

record compact_buckets =
  cb_n :: "train list"
  cb_s :: "train list"

definition compactSchedule :: "buckets obj \<Rightarrow> compact_buckets obj" where
  "compactSchedule schedule =
     map (\<lambda>(stationId, b).
            (stationId, \<lparr>cb_n = map compactEntry (northbound b),
                         cb_s = map compactEntry (southbound b)\<rparr>)) schedule"

text \<open>
  \<^verbatim>\<open>
  Object.keys(holidays).forEach(date => {
    const hasWeekdayRemoved = Object.values(holidays[date]).some(h => h.type === 2);
    if (hasWeekdayRemoved) { compactHolidays[date] = true; }
  });
  \<close>
\<close>

definition compactHolidays :: "exception obj obj \<Rightarrow> jsval obj" where
  "compactHolidays hs =
     fold (\<lambda>(date', m) acc.
             if list_ex (\<lambda>(sid, h). ex_type h = Some 2) m
             then AList.update date' (JBool True) acc else acc) hs []"

text \<open>
  The emitted document, without its station list (which orders the stations by latitude
  and plays no part below).
\<close>

record snapshot =
  snap_schedule :: "compact_buckets obj"
  snap_holidays :: "jsval obj"
  validFrom :: "string option"
  validTo :: "string option"

definition compactor :: "feed \<Rightarrow> snapshot" where
  "compactor f =
     \<lparr>snap_schedule = compactSchedule (sortAndDedupe (buildSchedule f)),
      snap_holidays = compactHolidays (holidays (calendarDates f)),
      validFrom = (case calendar f of [] \<Rightarrow> None | c # _ \<Rightarrow> Some (start_date c)),
      validTo = (case calendar f of [] \<Rightarrow> None | c # _ \<Rightarrow> Some (end_date c))\<rparr>"

section \<open>The three-way feed compactor: the second script of generate-icons.js\<close>

text \<open>
  The file generate-icons.js holds, after the icon generator, a second version of the
  compactor (from its line 59 on). It builds the lookup tables \<open>stopToStation\<close>,
  \<open>tripInfo\<close>, \<open>routeInfo\<close>, \<open>services\<close> and \<open>holidays\<close> with the same statements as
  process-gtfs.js, so the definitions above serve for both. It differs in the
  classification of a service, in the service type of the emitted tuples and in the holiday
  map, each with three values where process-gtfs.js has two.
\<close>

subsection \<open>Keys and numbers\<close>

text \<open>
  The property names that every object inherits from \<^verbatim>\<open>Object.prototype\<close>. A lookup
  \<^verbatim>\<open>o[k]\<close> with such a key finds the inherited property where \<open>map_of\<close> finds nothing, and
  an assignment to \<^verbatim>\<open>__proto__\<close> creates no key. The association lists are the objects of
  the program on the feeds none of whose identifiers is one of these names.
\<close>

definition protoNames :: "string list" where
  "protoNames =
     [''constructor'', ''__defineGetter__'', ''__defineSetter__'', ''hasOwnProperty'',
      ''__lookupGetter__'', ''__lookupSetter__'', ''isPrototypeOf'', ''propertyIsEnumerable'',
      ''toString'', ''valueOf'', ''__proto__'', ''toLocaleString'']"

text \<open>
  A row of stop_times.txt with the hour and the minute of
  \<^verbatim>\<open>departure_time.split(':').map(Number)\<close>: \<open>None\<close> is NaN, also for a part that the
  string does not have (an empty \<^verbatim>\<open>departure_time\<close> gives the hour 0 and no minute).
\<close>

record stop_time3 =
  st3_trip_id :: string
  st3_stop_id :: string
  departure3_h :: "int option"
  departure3_m :: "int option"

record feed3 =
  stops3 :: "stop list"
  trips3 :: "trip list"
  stopTimes3 :: "stop_time3 list"
  calendar3 :: "calendar_row list"
  calendarDates3 :: "calendar_date list"
  routes3 :: "route list"

definition plainFeed :: "feed3 \<Rightarrow> bool" where
  "plainFeed f \<longleftrightarrow>
     (\<forall>s \<in> set (stops3 f). stop_id s \<notin> set protoNames \<and> parent_station s \<notin> set protoNames) \<and>
     (\<forall>t \<in> set (trips3 f). trip_id t \<notin> set protoNames \<and> service_id t \<notin> set protoNames \<and>
                             route_id t \<notin> set protoNames) \<and>
     (\<forall>r \<in> set (routes3 f). r_route_id r \<notin> set protoNames \<and>
                              route_short_name r \<notin> set protoNames) \<and>
     (\<forall>c \<in> set (calendar3 f). c_service_id c \<notin> set protoNames) \<and>
     (\<forall>cd \<in> set (calendarDates3 f). cd_date cd \<notin> set protoNames \<and>
                                      cd_service_id cd \<notin> set protoNames) \<and>
     (\<forall>st \<in> set (stopTimes3 f). st3_trip_id st \<notin> set protoNames \<and>
                                  st3_stop_id st \<notin> set protoNames)"

subsection \<open>The schedule\<close>

record entry3 =
  e3_t :: "int option"
  e3_n :: string
  e3_r :: string
  e3_s :: string
  e3_h :: string

record buckets3 =
  northbound3 :: "entry3 list"
  southbound3 :: "entry3 list"

text \<open>
  \<^verbatim>\<open>
  let serviceType;
  if (service) {
    serviceType = service.weekday ? 'weekday' : 'weekend';
  } else {
    // Holiday-only service (M trains) - only in calendar_dates.txt
    serviceType = 'modified';
  }
  \<close>
\<close>

definition classifyService3 :: "service option \<Rightarrow> string" where
  "classifyService3 sv =
     (case sv of
        Some v \<Rightarrow> if weekday v then ''weekday'' else ''weekend''
      | None \<Rightarrow> ''modified'')"

text \<open>\<^verbatim>\<open>const minutes = h * 60 + m;\<close> is NaN when the hour or the minute is.\<close>

definition minutesOf :: "stop_time3 \<Rightarrow> int option" where
  "minutesOf st =
     (case (departure3_h st, departure3_m st) of
        (Some h, Some m) \<Rightarrow> Some (h * 60 + m)
      | _ \<Rightarrow> None)"

text \<open>
  The object that the loop pushes for a stop time of the trip \<open>trip'\<close>:
  \<^verbatim>\<open>
  { t: minutes, n: trip.trainNum, r: routeInfo[trip.routeId]?.name || 'Local',
    s: serviceType, h: trip.headsign }
  \<close>
\<close>

definition stopTimeEntry3 ::
  "service obj \<Rightarrow> route_info obj \<Rightarrow> trip_info \<Rightarrow> stop_time3 \<Rightarrow> entry3" where
  "stopTimeEntry3 services' routeInfo' trip' st =
     \<lparr>e3_t = minutesOf st, e3_n = trainNum trip',
      e3_r = (case map_of routeInfo' (routeId trip') of
                None \<Rightarrow> ''Local''
              | Some ri \<Rightarrow> if ri_name ri = [] then ''Local'' else ri_name ri),
      e3_s = classifyService3 (map_of services' (serviceId trip')),
      e3_h = headsign trip'\<rparr>"

text \<open>
  The body of \<^verbatim>\<open>stopTimes.forEach\<close>, which skips a stop time whose trip or whose parent
  station is unknown:
  \<^verbatim>\<open>
  const trip = tripInfo[st.trip_id];
  if (!trip) return;
  const stationId = stopToStation[st.stop_id];
  if (!stationId) return;
  const direction = trip.direction === 0 ? 'northbound' : 'southbound';
  const service = services[trip.serviceId];
  ...
  if (!schedule[stationId]) schedule[stationId] = { northbound: [], southbound: [] };
  ...
  schedule[stationId][direction].push({ ... });
  \<close>
\<close>

definition addStopTime3 ::
  "trip_info obj \<Rightarrow> string obj \<Rightarrow> service obj \<Rightarrow> route_info obj \<Rightarrow>
   stop_time3 \<Rightarrow> buckets3 obj \<Rightarrow> buckets3 obj" where
  "addStopTime3 tripInfo' stopToStation' services' routeInfo' st schedule =
     (case map_of tripInfo' (st3_trip_id st) of
        None \<Rightarrow> schedule
      | Some trip' \<Rightarrow>
         (case map_of stopToStation' (st3_stop_id st) of
            None \<Rightarrow> schedule
          | Some stationId \<Rightarrow>
             let direction' = (if direction trip' = Some 0 then ''northbound'' else ''southbound'');
                 b = (case map_of schedule stationId of
                        None \<Rightarrow> \<lparr>northbound3 = [], southbound3 = []\<rparr>
                      | Some b' \<Rightarrow> b');
                 item = stopTimeEntry3 services' routeInfo' trip' st
             in AList.update stationId
                  (if direction' = ''northbound''
                   then b\<lparr>northbound3 := northbound3 b @ [item]\<rparr>
                   else b\<lparr>southbound3 := southbound3 b @ [item]\<rparr>)
                  schedule))"

definition buildSchedule3 :: "feed3 \<Rightarrow> buckets3 obj" where
  "buildSchedule3 f =
     fold (addStopTime3 (tripInfo (trips3 f)) (stopToStation (stops3 f))
             (services (calendar3 f)) (routeInfo (routes3 f)))
          (stopTimes3 f) []"

text \<open>
  \<^verbatim>\<open>.sort((a, b) => a.t - b.t)\<close>. When every time is a number the comparator is
  consistent and the sort is the stable sort by the time. When a time is NaN the difference
  is NaN, ECMAScript takes it for 0, the comparator is inconsistent and the order is left
  to the engine: \<open>engine\<close> is what the engine returns then.
\<close>

definition sortByTime :: "(entry3 list \<Rightarrow> entry3 list) \<Rightarrow> entry3 list \<Rightarrow> entry3 list" where
  "sortByTime engine arr =
     (if list_all (\<lambda>e. e3_t e \<noteq> None) arr
      then sort_key (\<lambda>e. case e3_t e of Some t \<Rightarrow> t | None \<Rightarrow> 0) arr
      else engine arr)"

text \<open>\<^verbatim>\<open>a !== b\<close> on two numbers: NaN differs from every number and from itself.\<close>

definition strictNe :: "int option \<Rightarrow> int option \<Rightarrow> bool" where
  "strictNe a b \<longleftrightarrow> a = None \<or> b = None \<or> a \<noteq> b"

text \<open>
  \<^verbatim>\<open>
  .filter((item, idx, arr) =>
    idx === 0 || item.t !== arr[idx-1].t || item.n !== arr[idx-1].n);
  \<close>
\<close>

definition dedupe3 :: "entry3 list \<Rightarrow> entry3 list" where
  "dedupe3 arr =
     map snd (filter (\<lambda>(idx, item). idx = 0 \<or> strictNe (e3_t item) (e3_t (arr ! (idx - 1)))
                                       \<or> e3_n item \<noteq> e3_n (arr ! (idx - 1)))
                (enumerate 0 arr))"

definition sortAndDedupe3 :: "(entry3 list \<Rightarrow> entry3 list) \<Rightarrow> buckets3 obj \<Rightarrow> buckets3 obj" where
  "sortAndDedupe3 engine schedule =
     map (\<lambda>(stationId, b).
            (stationId, \<lparr>northbound3 = dedupe3 (sortByTime engine (northbound3 b)),
                         southbound3 = dedupe3 (sortByTime engine (southbound3 b))\<rparr>)) schedule"

subsection \<open>The compact snapshot\<close>

text \<open>
  \<^verbatim>\<open>
  const serviceTypeMap = { 'weekday': 0, 'weekend': 1, 'modified': 2 };
  t => [ t.t, t.n, routeTypeMap[t.r] ?? 0, serviceTypeMap[t.s] ?? 0 ]
  \<close>
  with the same \<open>routeTypeMap\<close> as in process-gtfs.js. The first component is the time,
  which may be NaN.
\<close>

definition serviceTypeMap :: "int obj" where
  "serviceTypeMap = [(''weekday'', 0), (''weekend'', 1), (''modified'', 2)]"

type_synonym tuple3 = "int option \<times> string \<times> int \<times> int"

definition minute3 :: "tuple3 \<Rightarrow> int option" where
  "minute3 t = fst t"



definition compactEntry3 :: "entry3 \<Rightarrow> tuple3" where
  "compactEntry3 t =
     (e3_t t, e3_n t, (case map_of routeTypeMap (e3_r t) of Some v \<Rightarrow> v | None \<Rightarrow> 0),
      (case map_of serviceTypeMap (e3_s t) of Some v \<Rightarrow> v | None \<Rightarrow> 0))"

record compact_buckets3 =
  cb3_n :: "tuple3 list"
  cb3_s :: "tuple3 list"

definition compactSchedule3 :: "buckets3 obj \<Rightarrow> compact_buckets3 obj" where
  "compactSchedule3 schedule =
     map (\<lambda>(stationId, b).
            (stationId, \<lparr>cb3_n = map compactEntry3 (northbound3 b),
                         cb3_s = map compactEntry3 (southbound3 b)\<rparr>)) schedule"

text \<open>
  \<^verbatim>\<open>
  Object.keys(holidays).forEach(date => {
    const entries = Object.entries(holidays[date]);
    const hasModifiedAdded = entries.some(([serviceId, h]) =>
      h.type === 1 && !services[serviceId]);
    const hasWeekdayRemoved = entries.some(([serviceId, h]) =>
      h.type === 2 && services[serviceId]?.weekday);
    if (hasModifiedAdded) {
      compactHolidays[date] = 2;  // Modified schedule (M trains)
    } else if (hasWeekdayRemoved) {
      compactHolidays[date] = 1;  // Weekend schedule on a weekday
    }
  });
  \<close>
\<close>

definition compactHolidays3 :: "service obj \<Rightarrow> exception obj obj \<Rightarrow> jsval obj" where
  "compactHolidays3 services' hs =
     fold (\<lambda>(date', entries) acc.
             let hasModifiedAdded =
                   list_ex (\<lambda>(serviceId', h). ex_type h = Some 1 \<and>
                                              map_of services' serviceId' = None) entries;
                 hasWeekdayRemoved =
                   list_ex (\<lambda>(serviceId', h). ex_type h = Some 2 \<and>
                              (case map_of services' serviceId' of
                                 Some v \<Rightarrow> weekday v | None \<Rightarrow> False)) entries
             in if hasModifiedAdded then AList.update date' (JNum 2) acc
                else if hasWeekdayRemoved then AList.update date' (JNum 1) acc
                else acc) hs []"

text \<open>
  The emitted document, without its station list and its table of platform stops (which
  play no part below).
\<close>

record snapshot3 =
  snap3_schedule :: "compact_buckets3 obj"
  snap3_holidays :: "jsval obj"
  validFrom3 :: "string option"
  validTo3 :: "string option"

definition compactor3 :: "(entry3 list \<Rightarrow> entry3 list) \<Rightarrow> feed3 \<Rightarrow> snapshot3" where
  "compactor3 engine f =
     \<lparr>snap3_schedule = compactSchedule3 (sortAndDedupe3 engine (buildSchedule3 f)),
      snap3_holidays = compactHolidays3 (services (calendar3 f)) (holidays (calendarDates3 f)),
      validFrom3 = (case calendar3 f of [] \<Rightarrow> None | c # _ \<Rightarrow> Some (start_date c)),
      validTo3 = (case calendar3 f of [] \<Rightarrow> None | c # _ \<Rightarrow> Some (end_date c))\<rparr>"

section \<open>Notions and sample feeds for the statements\<close>

text \<open>
  The exception record in force for a service on a date: the last one of the table, since
  a later assignment to \<^verbatim>\<open>holidays[date][service_id]\<close> replaces an earlier one.
\<close>

definition lastException :: "calendar_date list \<Rightarrow> string \<Rightarrow> string \<Rightarrow> calendar_date option" where
  "lastException cds d sid = find (\<lambda>cd. cd_date cd = d \<and> cd_service_id cd = sid) (rev cds)"

text \<open>The lookup \<^verbatim>\<open>o[d][sid]\<close> in an object of objects.\<close>

definition nested :: "'v obj obj \<Rightarrow> string \<Rightarrow> string \<Rightarrow> 'v option" where
  "nested hs d sid = (case map_of hs d of None \<Rightarrow> None | Some m \<Rightarrow> map_of m sid)"

text \<open>An object of objects has each key once, at both levels.\<close>

definition wf_obj2 :: "'v obj obj \<Rightarrow> bool" where
  "wf_obj2 hs \<longleftrightarrow> distinct (map fst hs) \<and> (\<forall>(d, m) \<in> set hs. distinct (map fst m))"

text \<open>The minute of a tuple as a sort key, for the buckets none of whose times is NaN.\<close>

definition minuteKey :: "tuple3 \<Rightarrow> int" where
  "minuteKey x = (case minute3 x of Some t \<Rightarrow> t | None \<Rightarrow> 0)"

text \<open>
  A feed in which train 101 of the weekday service leaves the station at 5:10 under two
  trip records, with the weekend train 201, which leaves at the same minute, between them.
\<close>

definition dupFeed :: feed where
  "dupFeed =
     \<lparr>stops = [\<lparr>stop_id = ''70011'', parent_station = ''sf''\<rparr>],
      trips =
        [\<lparr>trip_id = ''t101a'', service_id = ''wd'', direction_id = Some 1,
          trip_headsign = ''San Jose'', route_id = ''L1'', trip_short_name = ''101''\<rparr>,
         \<lparr>trip_id = ''t201'', service_id = ''we'', direction_id = Some 1,
          trip_headsign = ''San Jose'', route_id = ''L1'', trip_short_name = ''201''\<rparr>,
         \<lparr>trip_id = ''t101b'', service_id = ''wd'', direction_id = Some 1,
          trip_headsign = ''San Jose'', route_id = ''L1'', trip_short_name = ''101''\<rparr>],
      stopTimes =
        [\<lparr>st_trip_id = ''t101a'', st_stop_id = ''70011'', departure_h = 5, departure_m = 10\<rparr>,
         \<lparr>st_trip_id = ''t201'', st_stop_id = ''70011'', departure_h = 5, departure_m = 10\<rparr>,
         \<lparr>st_trip_id = ''t101b'', st_stop_id = ''70011'', departure_h = 5, departure_m = 10\<rparr>],
      calendar =
        [\<lparr>c_service_id = ''wd'', monday = ''1'', saturday = ''0'',
          start_date = ''20260101'', end_date = ''20261231''\<rparr>,
         \<lparr>c_service_id = ''we'', monday = ''0'', saturday = ''1'',
          start_date = ''20260101'', end_date = ''20261231''\<rparr>],
      calendarDates = [],
      routes =
        [\<lparr>r_route_id = ''L1'', route_short_name = ''Local Weekday'', route_color = ''gray''\<rparr>]\<rparr>"

text \<open>The same feed for the three-way compactor.\<close>

definition dupFeed3 :: feed3 where
  "dupFeed3 =
     \<lparr>stops3 = stops dupFeed, trips3 = trips dupFeed,
      stopTimes3 =
        [\<lparr>st3_trip_id = ''t101a'', st3_stop_id = ''70011'',
          departure3_h = Some 5, departure3_m = Some 10\<rparr>,
         \<lparr>st3_trip_id = ''t201'', st3_stop_id = ''70011'',
          departure3_h = Some 5, departure3_m = Some 10\<rparr>,
         \<lparr>st3_trip_id = ''t101b'', st3_stop_id = ''70011'',
          departure3_h = Some 5, departure3_m = Some 10\<rparr>],
      calendar3 = calendar dupFeed, calendarDates3 = [], routes3 = routes dupFeed\<rparr>"

text \<open>
  A feed with a weekday service \<open>wd\<close>, a weekend service \<open>we\<close>, a service \<open>daily\<close> that
  runs on Monday and on Saturday, and a service \<open>mod\<close> that only the exception table knows.
  On 2026-01-19 the service \<open>mod\<close> is added and the weekday service removed; on 2026-01-01
  the weekday service is removed. Train M101 runs on the service \<open>mod\<close>.
\<close>

definition holidayFeed3 :: feed3 where
  "holidayFeed3 =
     \<lparr>stops3 = [\<lparr>stop_id = ''70011'', parent_station = ''sf''\<rparr>],
      trips3 =
        [\<lparr>trip_id = ''t101'', service_id = ''wd'', direction_id = Some 1,
          trip_headsign = ''San Jose'', route_id = ''L1'', trip_short_name = ''101''\<rparr>,
         \<lparr>trip_id = ''t201'', service_id = ''we'', direction_id = Some 1,
          trip_headsign = ''San Jose'', route_id = ''L1'', trip_short_name = ''201''\<rparr>,
         \<lparr>trip_id = ''tM101'', service_id = ''mod'', direction_id = Some 1,
          trip_headsign = ''San Jose'', route_id = ''L1'', trip_short_name = ''M101''\<rparr>],
      stopTimes3 =
        [\<lparr>st3_trip_id = ''t101'', st3_stop_id = ''70011'',
          departure3_h = Some 5, departure3_m = Some 10\<rparr>,
         \<lparr>st3_trip_id = ''tM101'', st3_stop_id = ''70011'',
          departure3_h = Some 8, departure3_m = Some 20\<rparr>,
         \<lparr>st3_trip_id = ''t201'', st3_stop_id = ''70011'',
          departure3_h = Some 6, departure3_m = Some 40\<rparr>],
      calendar3 =
        [\<lparr>c_service_id = ''wd'', monday = ''1'', saturday = ''0'',
          start_date = ''20260101'', end_date = ''20261231''\<rparr>,
         \<lparr>c_service_id = ''we'', monday = ''0'', saturday = ''1'',
          start_date = ''20260101'', end_date = ''20261231''\<rparr>,
         \<lparr>c_service_id = ''daily'', monday = ''1'', saturday = ''1'',
          start_date = ''20260101'', end_date = ''20261231''\<rparr>],
      calendarDates3 =
        [\<lparr>cd_date = ''20260119'', cd_service_id = ''mod'', cd_exception_type = Some 1,
          cd_holiday_name = ''Martin Luther King Jr Day''\<rparr>,
         \<lparr>cd_date = ''20260119'', cd_service_id = ''wd'', cd_exception_type = Some 2,
          cd_holiday_name = ''Martin Luther King Jr Day''\<rparr>,
         \<lparr>cd_date = ''20260101'', cd_service_id = ''wd'', cd_exception_type = Some 2,
          cd_holiday_name = ''New Years Day''\<rparr>],
      routes3 =
        [\<lparr>r_route_id = ''L1'', route_short_name = ''Local Weekday'', route_color = ''gray''\<rparr>]\<rparr>"

section \<open>Properties of the query engine\<close>

subsection \<open>Clock formatting\<close>

lemma digits_lt10: "n < 10 \<Longrightarrow> digits n = [''0123456789'' ! n]"
  by (simp add: digits.simps)

lemma digits_ge10: "10 \<le> n \<Longrightarrow> digits n = digits (n div 10) @ [''0123456789'' ! (n mod 10)]"
  by (subst digits.simps) simp

lemma digits_two:
  "n < 100 \<Longrightarrow>
   padStart 2 (CHR ''0'') (digits n) = [''0123456789'' ! (n div 10), ''0123456789'' ! (n mod 10)]"
  apply (cases "n < 10")
   apply (simp add: digits_lt10 padStart_def)
  apply (simp add: digits_ge10 padStart_def digits_lt10)
  done

lemma js_rem_nonneg: "0 \<le> a \<Longrightarrow> 0 < b \<Longrightarrow> js_rem a b = a mod b"
  by (simp add: js_rem_def)

lemma bitlen_le: "n < 2 ^ k \<Longrightarrow> bitlen n \<le> k"
proof (induction k arbitrary: n)
  case 0
  then show ?case by (simp add: bitlen.simps)
next
  case (Suc k)
  show ?case
  proof (cases "n \<le> 0")
    case True
    then show ?thesis by (simp add: bitlen.simps)
  next
    case False
    from Suc.prems have "n div 2 < 2 ^ k" by simp
    then have "bitlen (n div 2) \<le> k" by (rule Suc.IH)
    then show ?thesis using False by (subst bitlen.simps) simp
  qed
qed

lemma rne_lower: "0 < b \<Longrightarrow> a div b \<le> rne a b"
  by (simp add: rne_def Let_def)

lemma rne_upper: "0 < b \<Longrightarrow> rne a b \<le> a div b + 1"
  by (simp add: rne_def Let_def)

lemma rne_down: "2 * (a mod b) < b \<Longrightarrow> rne a b = a div b"
  by (simp add: rne_def Let_def)

text \<open>
  With at least five fraction bits left, the rounding of a quotient by 60 never reaches
  the next integer: the quotient is at least \<open>1 / 60\<close> below it, and half a unit of the last
  place is at most \<open>1 / 64\<close>.
\<close>

lemma scaled_floor:
  fixes m P :: int
  assumes m: "0 \<le> m" and P: "32 \<le> P"
  shows "rne (m * P) 60 div P = m div 60"
proof -
  define a where "a = m div 60"
  define X where "X = a * P"
  define A where "A = m * P"
  have m1: "60 * a \<le> m" and m2: "m \<le> 60 * a + 59"
    unfolding a_def by presburger+
  have "(60 * a) * P \<le> m * P" using m1 P by (intro mult_right_mono) simp_all
  then have lo: "60 * X \<le> A" by (simp add: X_def A_def algebra_simps)
  have "m * P \<le> (60 * a + 59) * P" using m2 P by (intro mult_right_mono) simp_all
  then have hi: "A \<le> 60 * X + 59 * P" by (simp add: X_def A_def algebra_simps)
  have n1: "A div 60 \<le> rne A 60" by (rule rne_lower) simp
  have n2: "rne A 60 \<le> A div 60 + 1" by (rule rne_upper) simp
  have ge: "X \<le> rne A 60" using lo n1 by linarith
  have lt: "rne A 60 < X + P"
  proof (cases "A div 60 + 1 < X + P")
    case True
    then show ?thesis using n2 by linarith
  next
    case False
    have "A div 60 < X + P" using hi P by linarith
    with False have e: "A div 60 = X + P - 1" by linarith
    have "A = 60 * (A div 60) + A mod 60" by simp
    with e hi P have "A mod 60 \<le> 60 - P" by linarith
    with P have "2 * (A mod 60) < 60" by linarith
    then have "rne A 60 = A div 60" by (rule rne_down)
    with e P show ?thesis by linarith
  qed
  have "rne A 60 div P = a"
  proof (rule int_div_pos_eq[where r = "rne A 60 - a * P"])
    show "rne A 60 = P * a + (rne A 60 - a * P)" by (simp add: algebra_simps)
    show "0 \<le> rne A 60 - a * P" using ge by (simp add: X_def)
    show "rne A 60 - a * P < P" using lt by (simp add: X_def)
  qed
  then show ?thesis by (simp add: A_def a_def)
qed

text \<open>Below \<open>2 ^ 53\<close> the rounded division by 60, floored, is the integer division.\<close>

lemma floorDiv_exact:
  assumes "0 \<le> x" "x < 2 ^ 53"
  shows "floorDiv x 60 = x div 60"
proof (cases "x < 60")
  case True
  then have "x div 60 = 0" using assms by simp
  with True assms show ?thesis by (simp add: floorDiv_def)
next
  case False
  have "x div 60 < 2 ^ 48" using assms by simp
  then have "bitlen (x div 60) \<le> 48" by (rule bitlen_le)
  then have j: "bitlen (x div 60) - 1 \<le> 47" by simp
  define s where "s = 52 - (bitlen (x div 60) - 1)"
  have s5: "5 \<le> s" using j by (simp add: s_def)
  have "(2::int) ^ 5 \<le> 2 ^ s" using s5 by (rule power_increasing) simp
  then have P: "32 \<le> (2::int) ^ s" by simp
  have "floorDiv x 60 = rne (x * 2 ^ s) 60 div 2 ^ s"
    using False j assms by (simp add: floorDiv_def Let_def s_def)
  also have "\<dots> = x div 60" by (rule scaled_floor[OF assms(1) P])
  finally show ?thesis .
qed

lemma formatTime_nonneg:
  assumes "0 \<le> m" and "m < 2 ^ 53"
  shows "formatTime m =
     toString (if (m div 60) mod 24 mod 12 = 0 then 12 else (m div 60) mod 24 mod 12) @ '':'' @
     [''0123456789'' ! nat (m mod 60 div 10), ''0123456789'' ! nat (m mod 60 mod 10)] @
     (if (m div 60) mod 24 < 12 then ''am'' else ''pm'')"
proof -
  have f: "floorDiv m 60 = m div 60" using assms by (rule floorDiv_exact)
  have d: "0 \<le> m div 60" using assms by (simp add: pos_imp_zdiv_nonneg_iff)
  have r1: "js_rem (m div 60) 24 = (m div 60) mod 24" using d by (simp add: js_rem_nonneg)
  have r2: "js_rem m 60 = m mod 60" using assms by (simp add: js_rem_nonneg)
  have r3: "js_rem ((m div 60) mod 24) 12 = (m div 60) mod 24 mod 12" by (simp add: js_rem_nonneg)
  have lt: "nat (m mod 60) < 100" by (simp add: nat_less_iff)
  have ts: "toString (m mod 60) = digits (nat (m mod 60))" by (simp add: toString_def)
  have nd: "nat (m mod 60) div 10 = nat (m mod 60 div 10)"
    "nat (m mod 60) mod 10 = nat (m mod 60 mod 10)"
    by (simp_all add: nat_div_distrib nat_mod_distrib)
  show ?thesis
    unfolding formatTime_def Let_def f r1 r2 r3 ts digits_two[OF lt] nd
    by auto
qed

lemma formatTime_period:
  assumes a: "0 \<le> m" and b: "m + 1440 < 2 ^ 53"
  shows "formatTime (m + 1440) = formatTime m"
proof -
  have 1: "(m + 1440) div 60 = m div 60 + 24" by simp
  have "(m + 60 * 24) mod 60 = m mod 60" by (rule mod_mult_self2)
  then have 2: "(m + 1440) mod 60 = m mod 60" by simp
  have 3: "(m div 60 + 24) mod 24 = (m div 60) mod 24" by simp
  have a': "0 \<le> m + 1440" using a by simp
  have b': "m < 2 ^ 53" using b by simp
  show ?thesis
    unfolding formatTime_nonneg[OF a' b] formatTime_nonneg[OF a b'] 1 2 3 ..
qed

lemma formatTime_hour0:
  "0 \<le> m \<Longrightarrow> m < 2 ^ 53 \<Longrightarrow> m div 60 mod 24 = 0 \<Longrightarrow>
   formatTime m = ''12:'' @ [''0123456789'' ! nat (m mod 60 div 10),
                            ''0123456789'' ! nat (m mod 60 mod 10)] @ ''am''"
  by (simp add: formatTime_nonneg toString_def digits_lt10 digits_ge10)

lemma formatTime_hour12:
  "0 \<le> m \<Longrightarrow> m < 2 ^ 53 \<Longrightarrow> m div 60 mod 24 = 12 \<Longrightarrow>
   formatTime m = ''12:'' @ [''0123456789'' ! nat (m mod 60 div 10),
                            ''0123456789'' ! nat (m mod 60 mod 10)] @ ''pm''"
  by (simp add: formatTime_nonneg toString_def digits_lt10 digits_ge10)

lemma formatTime_samples:
  "formatTime 0 = ''12:00am''" "formatTime 720 = ''12:00pm''" "formatTime 945 = ''3:45pm''"
  "formatTime 1454 = ''12:14am''" "formatTime 1530 = ''1:30am''"
  by (simp_all add: formatTime_nonneg toString_def digits_lt10 digits_ge10)

text \<open>
  Claim C6, as stated, fails. The integer 67553994410556056 and the integer 1440 above it
  are both numbers (multiples of 8 below \<open>2 ^ 56\<close>). On them the division by 60 is rounded
  to a double: the first quotient is rounded down and gives hour 16, the second is rounded
  up across the next integer and gives hour 17 where the exact quotient gives hour 16
  again. The two strings differ.
\<close>

theorem C6_counterexample:
  "isDouble 67553994410556056 \<and> isDouble (67553994410556056 + 1440)
   \<and> formatTime 67553994410556056 = ''4:56pm''
   \<and> formatTime (67553994410556056 + 1440) = ''5:56pm''
   \<and> formatTime 67553994410556056 \<noteq> formatTime (67553994410556056 + 1440)"
  by code_simp

text \<open>
  Claim C6, amended. formatTime returns a string on every non-negative integer that a
  number holds (the model has no failing branch). For every integer \<open>m\<close> with \<open>0 \<le> m\<close> and
  \<open>m + 1440 < 2 ^ 53\<close>, the range in which numbers hold the integers exactly, it returns on
  \<open>m\<close> the same string as on \<open>m + 1440\<close>; the string is the 12-hour clock hour (12 for the
  hours 0 and 12), a colon, the minute as two digits, and am below hour 12, pm from hour 12
  on; hour 0 reads 12am and hour 12 reads 12pm; and the five literal values of the
  specification hold.
\<close>

theorem C6_formatTime:
  assumes "0 \<le> m" and "m + 1440 < 2 ^ 53"
  shows "formatTime m = formatTime (m + 1440)
    \<and> formatTime m =
        toString (if m div 60 mod 24 mod 12 = 0 then 12 else m div 60 mod 24 mod 12) @ '':'' @
        [''0123456789'' ! nat (m mod 60 div 10), ''0123456789'' ! nat (m mod 60 mod 10)] @
        (if m div 60 mod 24 < 12 then ''am'' else ''pm'')
    \<and> (m div 60 mod 24 = 0 \<longrightarrow>
        formatTime m = ''12:'' @ [''0123456789'' ! nat (m mod 60 div 10),
                                 ''0123456789'' ! nat (m mod 60 mod 10)] @ ''am'')
    \<and> (m div 60 mod 24 = 12 \<longrightarrow>
        formatTime m = ''12:'' @ [''0123456789'' ! nat (m mod 60 div 10),
                                 ''0123456789'' ! nat (m mod 60 mod 10)] @ ''pm'')
    \<and> formatTime 0 = ''12:00am'' \<and> formatTime 720 = ''12:00pm''
    \<and> formatTime 945 = ''3:45pm'' \<and> formatTime 1454 = ''12:14am''
    \<and> formatTime 1530 = ''1:30am''"
proof -
  have lt: "m < 2 ^ 53" using assms(2) by simp
  have a: "formatTime m = formatTime (m + 1440)"
    using formatTime_period[OF assms] by (rule sym)
  note b = formatTime_nonneg[OF assms(1) lt]
  note c = formatTime_hour0[OF assms(1) lt]
  note d = formatTime_hour12[OF assms(1) lt]
  show ?thesis
    by (intro conjI impI) (rule a b c d formatTime_samples | assumption)+
qed

theorem C6_formatTime_witness:
  "(0::int) \<le> 1454 \<and> (1454::int) + 1440 < 2 ^ 53
   \<and> (1454::int) div 60 mod 24 = 0 \<and> (725::int) div 60 mod 24 = 12
   \<and> formatTime 1454 = formatTime (1454 + 1440)
   \<and> formatTime 1454 = ''12:14am'' \<and> formatTime 725 = ''12:05pm''"
proof -
  have h: "(0::int) \<le> 1454" and h': "(0::int) \<le> 725" by simp_all
  have g: "(1454::int) + 1440 < 2 ^ 53" and g': "(725::int) + 1440 < 2 ^ 53" by simp_all
  have h0: "(1454::int) div 60 mod 24 = 0" and h12: "(725::int) div 60 mod 24 = 12"
    by simp_all
  have p: "formatTime 1454 = formatTime (1454 + 1440)"
    using C6_formatTime[OF h g] by (rule conjunct1)
  have "formatTime 1454 = ''12:'' @ [''0123456789'' ! nat (1454 mod 60 div 10),
                                    ''0123456789'' ! nat (1454 mod 60 mod 10)] @ ''am''"
    using C6_formatTime[OF h g] h0 by blast
  then have a: "formatTime 1454 = ''12:14am''" by simp
  have "formatTime 725 = ''12:'' @ [''0123456789'' ! nat (725 mod 60 div 10),
                                   ''0123456789'' ! nat (725 mod 60 mod 10)] @ ''pm''"
    using C6_formatTime[OF h' g'] h12 by blast
  then have b: "formatTime 725 = ''12:05pm''" by simp
  show ?thesis using h g h0 h12 p a b by blast
qed

subsection \<open>The service-day cursor\<close>

text \<open>
  Claim C7. For every local hour \<open>h\<close> in 0..23 and minute \<open>m\<close> in 0..59, given as overrides
  or read from the clock, getCurrentMinutes returns \<open>h * 60 + m\<close> when \<open>h \<ge> 3\<close> and
  \<open>h * 60 + m + 1440\<close> when \<open>h < 3\<close>; 10:30 gives 630, 23:56 gives 1436, 00:04 gives 1444,
  02:59 gives 1619 and 03:00 gives 180.
\<close>

theorem C7_getCurrentMinutes:
  assumes "0 \<le> h" "h \<le> 23" "0 \<le> m" "m \<le> 59"
  shows "getCurrentMinutes nowH nowM (Some h) (Some m) =
           (if h \<ge> 3 then h * 60 + m else h * 60 + m + 1440)
       \<and> getCurrentMinutes h m None None =
           (if h \<ge> 3 then h * 60 + m else h * 60 + m + 1440)
       \<and> getCurrentMinutes nowH nowM (Some 10) (Some 30) = 630
       \<and> getCurrentMinutes nowH nowM (Some 23) (Some 56) = 1436
       \<and> getCurrentMinutes nowH nowM (Some 0) (Some 4) = 1444
       \<and> getCurrentMinutes nowH nowM (Some 2) (Some 59) = 1619
       \<and> getCurrentMinutes nowH nowM (Some 3) (Some 0) = 180"
  using assms by (auto simp: getCurrentMinutes_def Let_def)

theorem C7_getCurrentMinutes_witness:
  "(0::int) \<le> 2 \<and> (2::int) \<le> 23 \<and> (0::int) \<le> 59 \<and> (59::int) \<le> 59
   \<and> getCurrentMinutes 17 5 (Some 2) (Some 59) = 1619 \<and> getCurrentMinutes 2 59 None None = 1619"
  using C7_getCurrentMinutes[of 2 59 17 5] by simp

text \<open>
  Claim C9. For every local hour in 0..23 and minute in 0..59, given as overrides or read
  from the clock, the result of getCurrentMinutes lies between 180 and 1619: it is never
  below 180, the start of the service day.
\<close>

theorem C9_getCurrentMinutes_range:
  assumes "0 \<le> h" "h \<le> 23" "0 \<le> m" "m \<le> 59"
  shows "180 \<le> getCurrentMinutes nowH nowM (Some h) (Some m)
       \<and> getCurrentMinutes nowH nowM (Some h) (Some m) \<le> 1619
       \<and> 180 \<le> getCurrentMinutes h m None None
       \<and> getCurrentMinutes h m None None \<le> 1619"
  using assms by (auto simp: getCurrentMinutes_def Let_def)

theorem C9_getCurrentMinutes_range_witness:
  "(0::int) \<le> 0 \<and> (0::int) \<le> 23 \<and> (0::int) \<le> 4 \<and> (4::int) \<le> 59
   \<and> 180 \<le> getCurrentMinutes 9 9 (Some 0) (Some 4)
   \<and> getCurrentMinutes 9 9 (Some 0) (Some 4) \<le> 1619"
  using C9_getCurrentMinutes_range[of 0 4 9 9] by simp

subsection \<open>Departures toward a destination\<close>

lemma destTrainNums_iff:
  "n \<in> destTrainNums d s \<longleftrightarrow> (\<exists>e \<in> set d. serviceType e = s \<and> trainNumber e = n)"
  by (auto simp: destTrainNums_def serviceType_def trainNumber_def)

lemma filterTrains_filter:
  "filterTrainsByDestination orig d s now =
     filter (\<lambda>x. serviceType x = s \<and> now \<le> minute x \<and> minute x \<le> 1560 \<and>
                 (\<exists>e \<in> set d. serviceType e = s \<and> trainNumber e = trainNumber x)) orig"
  unfolding filterTrainsByDestination_def
  by (rule filter_cong [OF refl])
     (auto simp: destTrainNums_iff endOfDay_def serviceType_def trainNumber_def minute_def)

lemma sample_dest0: "destTrainNums sampleDestTrains 0 = {''101''}"
  by (simp add: destTrainNums_def sampleDestTrains_def)

lemma sample_dest1: "destTrainNums sampleDestTrains 1 = {''201'', ''664''}"
  by (simp add: destTrainNums_def sampleDestTrains_def)

lemma sample_dest2: "destTrainNums sampleDestTrains 2 = {''M101''}"
  by (simp add: destTrainNums_def sampleDestTrains_def)

lemma sample_weekday:
  "map trainNumber (filterTrainsByDestination sampleOriginTrains sampleDestTrains 0 300) =
     [''101'']"
  by (simp add: filterTrainsByDestination_def sample_dest0 sampleOriginTrains_def endOfDay_def
      trainNumber_def)

lemma sample_weekend:
  "map trainNumber (filterTrainsByDestination sampleOriginTrains sampleDestTrains 1 300) =
     [''201'', ''664'']"
  by (simp add: filterTrainsByDestination_def sample_dest1 sampleOriginTrains_def endOfDay_def
      trainNumber_def)

lemma sample_modified:
  "map trainNumber (filterTrainsByDestination sampleOriginTrains sampleDestTrains 2 300) =
     [''M101'']"
  by (simp add: filterTrainsByDestination_def sample_dest2 sampleOriginTrains_def endOfDay_def
      trainNumber_def)

lemma sample_weekend_later:
  "map trainNumber (filterTrainsByDestination sampleOriginTrains sampleDestTrains 1 410) =
     [''664'']"
  by (simp add: filterTrainsByDestination_def sample_dest1 sampleOriginTrains_def endOfDay_def
      trainNumber_def)

text \<open>
  Claim C1. For every origin bucket, destination bucket, service type and current minute,
  filterTrainsByDestination returns exactly the departures \<open>d\<close> of the origin bucket, each as
  often and in the order it stands there, with \<open>serviceType d\<close> equal to the filter,
  \<open>minute d\<close> at least the current minute and at most 1560, and whose train number stands
  under the same service type in the destination bucket; an origin bucket in ascending
  minute order, as the buckets of a snapshot are, gives a result in ascending minute order;
  and on the sample data the four queries return 101; 201 and 664; M101; and 664.
\<close>

theorem C1_filterTrainsByDestination:
  "filterTrainsByDestination orig dest svc now =
     filter (\<lambda>d. serviceType d = svc \<and> minute d \<ge> now \<and> minute d \<le> 1560 \<and>
                 (\<exists>e \<in> set dest. serviceType e = svc \<and> trainNumber e = trainNumber d)) orig
   \<and> (sorted (map minute orig) \<longrightarrow>
        sorted (map minute (filterTrainsByDestination orig dest svc now)))
   \<and> map trainNumber (filterTrainsByDestination sampleOriginTrains sampleDestTrains 0 300) =
       [''101'']
   \<and> map trainNumber (filterTrainsByDestination sampleOriginTrains sampleDestTrains 1 300) =
       [''201'', ''664'']
   \<and> map trainNumber (filterTrainsByDestination sampleOriginTrains sampleDestTrains 2 300) =
       [''M101'']
   \<and> map trainNumber (filterTrainsByDestination sampleOriginTrains sampleDestTrains 1 410) =
       [''664'']"
proof -
  have s: "sorted (map minute orig) \<Longrightarrow>
        sorted (map minute (filterTrainsByDestination orig dest svc now))"
    unfolding filterTrainsByDestination_def by (rule sorted_filter)
  show ?thesis
    using filterTrains_filter[of orig dest svc now] s
      sample_weekday sample_weekend sample_modified sample_weekend_later
    by blast
qed

theorem C1_filterTrainsByDestination_witness:
  "sorted (map minute sampleOriginTrains)
   \<and> filterTrainsByDestination sampleOriginTrains sampleDestTrains 1 300 =
       [(400, ''201'', 0, 1), (1454, ''664'', 0, 1)]
   \<and> sorted (map minute (filterTrainsByDestination sampleOriginTrains sampleDestTrains 1 300))"
proof -
  have h: "sorted (map minute sampleOriginTrains)"
    by (simp add: sampleOriginTrains_def minute_def)
  have e: "filterTrainsByDestination sampleOriginTrains sampleDestTrains 1 300 =
       [(400, ''201'', 0, 1), (1454, ''664'', 0, 1)]"
    by (simp add: filterTrainsByDestination_def sample_dest1 sampleOriginTrains_def endOfDay_def)
  show ?thesis
    using h e C1_filterTrainsByDestination[of sampleOriginTrains sampleDestTrains 1 300]
    by blast
qed

text \<open>
  Claim C10. Two destination lists that induce the same set of train numbers under the
  service filter (whatever the minutes, route types, order or repetitions of their entries)
  give the same result for every origin list, filter and current minute; and the result is
  always a subsequence of the origin list.
\<close>

theorem C10_destination_only_through_numbers:
  "({trainNumber e | e. e \<in> set dest1 \<and> serviceType e = svc} =
    {trainNumber e | e. e \<in> set dest2 \<and> serviceType e = svc} \<longrightarrow>
      filterTrainsByDestination orig dest1 svc now =
      filterTrainsByDestination orig dest2 svc now)
   \<and> subseq (filterTrainsByDestination orig dest svc now) orig"
proof -
  have eq: "destTrainNums d svc = {trainNumber e | e. e \<in> set d \<and> serviceType e = svc}" for d
    by (auto simp: destTrainNums_iff) blast
  have "subseq (filterTrainsByDestination orig dest svc now) orig"
    unfolding filterTrainsByDestination_def by (rule subseq_filter_left)
  moreover have "destTrainNums dest1 svc = destTrainNums dest2 svc \<Longrightarrow>
      filterTrainsByDestination orig dest1 svc now =
      filterTrainsByDestination orig dest2 svc now"
    by (simp add: filterTrainsByDestination_def)
  ultimately show ?thesis unfolding eq by blast
qed

theorem C10_destination_only_through_numbers_witness:
  "{trainNumber e | e. e \<in> set [(330, ''101'', 0, 0), (420, ''201'', 0, 1)] \<and> serviceType e = 0} =
   {trainNumber e | e.
      e \<in> set [(999, ''101'', 2, 0), (5, ''101'', 1, 0), (7, ''102'', 0, 1)] \<and> serviceType e = 0}
   \<and> filterTrainsByDestination sampleOriginTrains [(330, ''101'', 0, 0), (420, ''201'', 0, 1)] 0 300 =
     filterTrainsByDestination sampleOriginTrains
       [(999, ''101'', 2, 0), (5, ''101'', 1, 0), (7, ''102'', 0, 1)] 0 300"
proof -
  have h: "{trainNumber e | e.
      e \<in> set [(330, ''101'', 0, 0), (420, ''201'', 0, 1)] \<and> serviceType e = 0} =
   {trainNumber e | e.
      e \<in> set [(999, ''101'', 2, 0), (5, ''101'', 1, 0), (7, ''102'', 0, 1)] \<and> serviceType e = 0}"
    by (auto simp: trainNumber_def serviceType_def)
  show ?thesis
    using h C10_destination_only_through_numbers[of "[(330, ''101'', 0, 0), (420, ''201'', 0, 1)]" 0
        "[(999, ''101'', 2, 0), (5, ''101'', 1, 0), (7, ''102'', 0, 1)]" sampleOriginTrains 300]
    by blast
qed

subsection \<open>The service day of an instant\<close>

text \<open>
  Claim C4 (the code departs from it). At 17:00 Pacific Standard Time on Monday
  2026-01-19, a date to which the holiday map of the tests gives the override 2, the local
  hour is 17, so the claim classifies the current local date and answers modified. The
  program looks the holiday up under the date of \<^verbatim>\<open>toISOString\<close>, which is the UTC date
  2026-01-20, finds nothing, and answers weekday from the local day of the week. On the
  evening before, Sunday 2026-01-18 at 17:00, it finds the holiday of the next day and
  answers modified where the claim answers weekend.
\<close>

theorem C4_getServiceType_utc_date:
  "getHours pacificStandard 1768870800000 = 17
   \<and> localDateKey pacificStandard 1768870800000 = ''20260119''
   \<and> testHolidays ''20260119'' = Some (JNum 2)
   \<and> getServiceType pacificStandard 1768870800000 testHolidays = Inr ''weekday''
   \<and> getHours pacificStandard 1768784400000 = 17
   \<and> localDateKey pacificStandard 1768784400000 = ''20260118''
   \<and> getDay pacificStandard 1768784400000 = 0
   \<and> testHolidays ''20260118'' = None
   \<and> getServiceType pacificStandard 1768784400000 testHolidays = Inr ''modified''"
  by code_simp

section \<open>Properties of the compactor\<close>

subsection \<open>Lookup tables built by assignment\<close>

lemma find_append:
  "find P (xs @ ys) = (case find P xs of None \<Rightarrow> find P ys | Some x \<Rightarrow> Some x)"
  by (induction xs) auto

lemma find_SomeD: "find P xs = Some x \<Longrightarrow> x \<in> set xs \<and> P x"
  by (induction xs) (auto split: if_splits)

lemma find_distinct_key:
  assumes "distinct (map k xs)"
  shows "find (\<lambda>x. k x = key) xs = Some x \<longleftrightarrow> x \<in> set xs \<and> k x = key"
  using assms
proof (induction xs)
  case Nil
  show ?case by simp
next
  case (Cons y ys)
  then show ?case by (auto simp: image_iff)
qed

lemma map_of_fold_update:
  "map_of (fold (\<lambda>x m. AList.update (k x) (v x) m) xs m0) key =
     (case find (\<lambda>x. k x = key) (rev xs) of Some x \<Rightarrow> Some (v x) | None \<Rightarrow> map_of m0 key)"
proof (induction xs arbitrary: m0)
  case Nil
  show ?case by simp
next
  case (Cons x xs)
  show ?case
    by (simp add: Cons.IH update_conv' find_append split: option.splits)
qed

lemma set_update_subset: "set (AList.update k v al) \<subseteq> insert (k, v) (set al)"
  by (induction al) auto

subsection \<open>The service calendar\<close>

lemma services_lookup:
  "map_of (services cal) sid =
     map_option (\<lambda>c. \<lparr>weekday = (monday c = ''1''), weekend = (saturday c = ''1''),
                       startDate = start_date c, endDate = end_date c\<rparr>)
       (find (\<lambda>c. c_service_id c = sid) (rev cal))"
  unfolding services_def by (simp add: map_of_fold_update split: option.splits)

text \<open>
  Claim C8, as stated, fails: a service with the Monday and the Saturday flag set is not
  classified weekend, by either version of the compactor.
\<close>

theorem C8_counterexample:
  "\<not> (classifyService (map_of (services
         [\<lparr>c_service_id = ''daily'', monday = ''1'', saturday = ''1'',
           start_date = ''20260101'', end_date = ''20261231''\<rparr>]) ''daily'') = ''weekend'')
   \<and> \<not> (classifyService3 (map_of (services
         [\<lparr>c_service_id = ''daily'', monday = ''1'', saturday = ''1'',
           start_date = ''20260101'', end_date = ''20261231''\<rparr>]) ''daily'') = ''weekend'')"
  by code_simp

text \<open>
  Claim C8, amended. For a service with a calendar record (its last one decides; the
  identifier is no property name of \<^verbatim>\<open>Object.prototype\<close>), in both versions of the
  compactor: a service whose Monday flag is set is classified weekday, whatever its other
  flags; otherwise it is classified weekend when its Saturday flag is set. So a service
  with both flags set is weekday.
\<close>

theorem C8_classifyService:
  assumes "find (\<lambda>c. c_service_id c = sid) (rev cal) = Some c"
    and "sid \<notin> set protoNames"
  shows "(monday c = ''1'' \<longrightarrow>
            classifyService (map_of (services cal) sid) = ''weekday'' \<and>
            classifyService3 (map_of (services cal) sid) = ''weekday'')
       \<and> (monday c \<noteq> ''1'' \<and> saturday c = ''1'' \<longrightarrow>
            classifyService (map_of (services cal) sid) = ''weekend'' \<and>
            classifyService3 (map_of (services cal) sid) = ''weekend'')"
  using assms(1) by (simp add: services_lookup classifyService_def classifyService3_def)

theorem C8_classifyService_witness:
  "find (\<lambda>c. c_service_id c = ''daily'') (rev (calendar3 holidayFeed3)) =
     Some \<lparr>c_service_id = ''daily'', monday = ''1'', saturday = ''1'',
           start_date = ''20260101'', end_date = ''20261231''\<rparr>
   \<and> ''daily'' \<notin> set protoNames
   \<and> classifyService (map_of (services (calendar3 holidayFeed3)) ''daily'') = ''weekday''
   \<and> classifyService3 (map_of (services (calendar3 holidayFeed3)) ''daily'') = ''weekday''
   \<and> find (\<lambda>c. c_service_id c = ''we'') (rev (calendar3 holidayFeed3)) =
     Some \<lparr>c_service_id = ''we'', monday = ''0'', saturday = ''1'',
           start_date = ''20260101'', end_date = ''20261231''\<rparr>
   \<and> ''we'' \<notin> set protoNames
   \<and> classifyService (map_of (services (calendar3 holidayFeed3)) ''we'') = ''weekend''
   \<and> classifyService3 (map_of (services (calendar3 holidayFeed3)) ''we'') = ''weekend''"
proof -
  let ?d = "\<lparr>c_service_id = ''daily'', monday = ''1'', saturday = ''1'',
           start_date = ''20260101'', end_date = ''20261231''\<rparr>"
  let ?w = "\<lparr>c_service_id = ''we'', monday = ''0'', saturday = ''1'',
           start_date = ''20260101'', end_date = ''20261231''\<rparr>"
  have f1: "find (\<lambda>c. c_service_id c = ''daily'') (rev (calendar3 holidayFeed3)) = Some ?d"
    by code_simp
  have f2: "find (\<lambda>c. c_service_id c = ''we'') (rev (calendar3 holidayFeed3)) = Some ?w"
    by code_simp
  have p1: "''daily'' \<notin> set protoNames" and p2: "''we'' \<notin> set protoNames"
    by (simp_all add: protoNames_def)
  have m1: "monday ?d = ''1''" by simp
  have m2: "monday ?w \<noteq> ''1'' \<and> saturday ?w = ''1''" by simp
  have r1: "classifyService (map_of (services (calendar3 holidayFeed3)) ''daily'') = ''weekday'' \<and>
            classifyService3 (map_of (services (calendar3 holidayFeed3)) ''daily'') = ''weekday''"
    using C8_classifyService[OF f1 p1] m1 by blast
  have r2: "classifyService (map_of (services (calendar3 holidayFeed3)) ''we'') = ''weekend'' \<and>
            classifyService3 (map_of (services (calendar3 holidayFeed3)) ''we'') = ''weekend''"
    using C8_classifyService[OF f2 p2] m2 by blast
  show ?thesis using f1 f2 p1 p2 r1 r2 by blast
qed

subsection \<open>The holiday map\<close>

lemma nested_addException:
  "nested (addException cd hs) d sid =
     (if cd_date cd = d \<and> cd_service_id cd = sid
      then Some \<lparr>ex_type = cd_exception_type cd, ex_name = cd_holiday_name cd\<rparr>
      else nested hs d sid)"
  by (auto simp: nested_def addException_def Let_def update_conv' split: option.splits)

lemma nested_fold:
  "nested (fold addException cds hs0) d sid =
     (case find (\<lambda>cd. cd_date cd = d \<and> cd_service_id cd = sid) (rev cds) of
        Some cd \<Rightarrow> Some \<lparr>ex_type = cd_exception_type cd, ex_name = cd_holiday_name cd\<rparr>
      | None \<Rightarrow> nested hs0 d sid)"
proof (induction cds arbitrary: hs0)
  case Nil
  show ?case by simp
next
  case (Cons x xs)
  show ?case
    by (simp add: Cons.IH nested_addException find_append split: option.splits)
qed

lemma wf_addException: "wf_obj2 hs \<Longrightarrow> wf_obj2 (addException cd hs)"
proof -
  assume w: "wf_obj2 hs"
  define inner where "inner = (case map_of hs (cd_date cd) of None \<Rightarrow> [] | Some m \<Rightarrow> m)"
  have di: "distinct (map fst inner)"
  proof (cases "map_of hs (cd_date cd)")
    case None
    then show ?thesis by (simp add: inner_def)
  next
    case (Some m)
    then have "(cd_date cd, m) \<in> set hs" by (rule map_of_SomeD)
    with w have "distinct (map fst m)" by (auto simp: wf_obj2_def)
    then show ?thesis using Some by (simp add: inner_def)
  qed
  let ?m' = "AList.update (cd_service_id cd)
              \<lparr>ex_type = cd_exception_type cd, ex_name = cd_holiday_name cd\<rparr> inner"
  have dm: "distinct (map fst ?m')" using di by (rule distinct_update)
  have eq: "addException cd hs = AList.update (cd_date cd) ?m' hs"
    by (simp add: addException_def inner_def)
  have d1: "distinct (map fst (addException cd hs))"
    unfolding eq using w by (auto simp: wf_obj2_def intro: distinct_update)
  have "set (addException cd hs) \<subseteq> insert (cd_date cd, ?m') (set hs)"
    unfolding eq by (rule set_update_subset)
  then have d2: "\<forall>(d, m) \<in> set (addException cd hs). distinct (map fst m)"
    using w dm by (auto simp: wf_obj2_def)
  show ?thesis using d1 d2 by (simp add: wf_obj2_def)
qed

lemma wf_fold_addException: "wf_obj2 hs0 \<Longrightarrow> wf_obj2 (fold addException cds hs0)"
  by (induction cds arbitrary: hs0) (simp_all add: wf_addException)

lemma wf_holidays: "wf_obj2 (holidays cds)"
  unfolding holidays_def by (rule wf_fold_addException) (simp add: wf_obj2_def)

text \<open>
  An entry of \<^verbatim>\<open>Object.entries(holidays[date])\<close> with a property \<open>Q\<close> of its service and
  its exception type is the record in force of some service with that property.
\<close>

lemma exception_iff:
  "(\<exists>m. (d, m) \<in> set (holidays cds) \<and> list_ex (\<lambda>(sid, h). Q sid (ex_type h)) m) \<longleftrightarrow>
   (\<exists>sid cd. lastException cds d sid = Some cd \<and> Q sid (cd_exception_type cd))"
proof
  assume "\<exists>m. (d, m) \<in> set (holidays cds) \<and> list_ex (\<lambda>(sid, h). Q sid (ex_type h)) m"
  then obtain m sid h where m: "(d, m) \<in> set (holidays cds)" and sh: "(sid, h) \<in> set m"
    and t: "Q sid (ex_type h)"
    by (auto simp: list_ex_iff)
  have w: "wf_obj2 (holidays cds)" by (rule wf_holidays)
  from w m have dm: "distinct (map fst m)" by (auto simp: wf_obj2_def)
  from w m have "map_of (holidays cds) d = Some m" by (simp add: wf_obj2_def)
  moreover from dm sh have "map_of m sid = Some h" by simp
  ultimately have "nested (holidays cds) d sid = Some h" by (simp add: nested_def)
  then obtain cd where "lastException cds d sid = Some cd"
    and "h = \<lparr>ex_type = cd_exception_type cd, ex_name = cd_holiday_name cd\<rparr>"
    unfolding holidays_def nested_fold lastException_def
    by (auto simp: nested_def split: option.splits)
  with t show "\<exists>sid cd. lastException cds d sid = Some cd \<and> Q sid (cd_exception_type cd)"
    by auto
next
  assume "\<exists>sid cd. lastException cds d sid = Some cd \<and> Q sid (cd_exception_type cd)"
  then obtain sid cd where l: "lastException cds d sid = Some cd"
    and t: "Q sid (cd_exception_type cd)" by blast
  let ?h = "\<lparr>ex_type = cd_exception_type cd, ex_name = cd_holiday_name cd\<rparr>"
  have "nested (holidays cds) d sid = Some ?h"
    unfolding holidays_def nested_fold using l by (simp add: lastException_def)
  then obtain m where m: "map_of (holidays cds) d = Some m" and s: "map_of m sid = Some ?h"
    by (auto simp: nested_def split: option.splits)
  from m have "(d, m) \<in> set (holidays cds)" by (rule map_of_SomeD)
  moreover from s have "(sid, ?h) \<in> set m" by (rule map_of_SomeD)
  then have "list_ex (\<lambda>(sid, h). Q sid (ex_type h)) m"
    using t unfolding list_ex_iff by (intro bexI[where x = "(sid, ?h)"]) simp_all
  ultimately show
    "\<exists>m. (d, m) \<in> set (holidays cds) \<and> list_ex (\<lambda>(sid, h). Q sid (ex_type h)) m"
    by blast
qed

lemma compactHolidays3_fold:
  assumes "distinct (map fst hs)"
  shows "map_of (fold (\<lambda>(date', m) acc.
             if A m then AList.update date' (JNum 2) acc
             else if B m then AList.update date' (JNum 1) acc else acc) hs acc0) d =
     (case map_of hs d of
        None \<Rightarrow> map_of acc0 d
      | Some m \<Rightarrow> if A m then Some (JNum 2) else if B m then Some (JNum 1) else map_of acc0 d)"
  using assms
proof (induction hs arbitrary: acc0)
  case Nil
  show ?case by simp
next
  case (Cons p hs)
  obtain d' m' where p: "p = (d', m')" by (cases p)
  from Cons.prems have dis: "distinct (map fst hs)" and notin: "d' \<notin> fst ` set hs"
    by (simp_all add: p)
  have none: "map_of hs d' = None" using notin by (simp add: map_of_eq_None_iff)
  show ?case
    unfolding p using none
    by (auto simp: Cons.IH[OF dis] update_conv' split: option.splits)
qed

lemma holidays3_lookup:
  "map_of (compactHolidays3 sv (holidays cds)) d =
     (if \<exists>sid cd. lastException cds d sid = Some cd \<and> cd_exception_type cd = Some 1 \<and>
                   map_of sv sid = None
      then Some (JNum 2)
      else if \<exists>sid cd. lastException cds d sid = Some cd \<and> cd_exception_type cd = Some 2 \<and>
                        (case map_of sv sid of Some v \<Rightarrow> weekday v | None \<Rightarrow> False)
      then Some (JNum 1) else None)"
proof -
  let ?A = "list_ex (\<lambda>(sid, h). ex_type h = Some 1 \<and> map_of sv sid = None)"
  let ?B = "list_ex (\<lambda>(sid, h). ex_type h = Some 2 \<and>
                       (case map_of sv sid of Some v \<Rightarrow> weekday v | None \<Rightarrow> False))"
  have w: "wf_obj2 (holidays cds)" by (rule wf_holidays)
  then have dis: "distinct (map fst (holidays cds))" by (simp add: wf_obj2_def)
  have mem: "(\<exists>m. (d, m) \<in> set (holidays cds) \<and> P m) \<longleftrightarrow>
             (case map_of (holidays cds) d of None \<Rightarrow> False | Some m \<Rightarrow> P m)" for P
  proof -
    have "(d, m) \<in> set (holidays cds) \<longleftrightarrow> map_of (holidays cds) d = Some m" for m
      using dis by simp
    then show ?thesis by (auto split: option.splits)
  qed
  have a: "(case map_of (holidays cds) d of None \<Rightarrow> False | Some m \<Rightarrow> ?A m) \<longleftrightarrow>
           (\<exists>sid cd. lastException cds d sid = Some cd \<and> cd_exception_type cd = Some 1 \<and>
                   map_of sv sid = None)"
    unfolding mem[symmetric]
    by (rule exception_iff[where Q = "\<lambda>sid t. t = Some 1 \<and> map_of sv sid = None"])
  have b: "(case map_of (holidays cds) d of None \<Rightarrow> False | Some m \<Rightarrow> ?B m) \<longleftrightarrow>
           (\<exists>sid cd. lastException cds d sid = Some cd \<and> cd_exception_type cd = Some 2 \<and>
                        (case map_of sv sid of Some v \<Rightarrow> weekday v | None \<Rightarrow> False))"
    unfolding mem[symmetric]
    by (rule exception_iff[where Q = "\<lambda>sid t. t = Some 2 \<and>
           (case map_of sv sid of Some v \<Rightarrow> weekday v | None \<Rightarrow> False)"])
  have "map_of (compactHolidays3 sv (holidays cds)) d =
     (case map_of (holidays cds) d of
        None \<Rightarrow> None
      | Some m \<Rightarrow> if ?A m then Some (JNum 2) else if ?B m then Some (JNum 1) else None)"
    unfolding compactHolidays3_def Let_def
    by (simp add: compactHolidays3_fold[OF dis] split: option.splits)
  also have "\<dots> = (if (case map_of (holidays cds) d of None \<Rightarrow> False | Some m \<Rightarrow> ?A m)
      then Some (JNum 2)
      else if (case map_of (holidays cds) d of None \<Rightarrow> False | Some m \<Rightarrow> ?B m)
      then Some (JNum 1) else None)"
    by (simp split: option.splits)
  finally show ?thesis unfolding a b .
qed

text \<open>
  In a table that has each pair of a date and a service once, as the feed format requires,
  the record in force is the record.
\<close>

lemma lastException_distinct:
  assumes "distinct (map (\<lambda>cd. (cd_date cd, cd_service_id cd)) cds)"
  shows "lastException cds d sid = Some cd \<longleftrightarrow>
         cd \<in> set cds \<and> cd_date cd = d \<and> cd_service_id cd = sid"
proof -
  have "distinct (map (\<lambda>cd. (cd_date cd, cd_service_id cd)) (rev cds))"
    using assms by (simp add: rev_map[symmetric])
  from find_distinct_key[OF this, of "(d, sid)" cd]
  show ?thesis by (simp add: lastException_def)
qed

lemma classify3_modified: "classifyService3 sv = ''modified'' \<longleftrightarrow> sv = None"
  by (simp add: classifyService3_def split: option.splits)

lemma classify3_weekday:
  "classifyService3 sv = ''weekday'' \<longleftrightarrow> (case sv of Some v \<Rightarrow> weekday v | None \<Rightarrow> False)"
  by (simp add: classifyService3_def split: option.splits)

text \<open>
  Claim C3. On a feed whose identifiers are no property names of \<^verbatim>\<open>Object.prototype\<close>,
  and whose exception table has each pair of a date and a service once, the holiday map of
  the emitted snapshot sends a date to 2 when some exception record of that date adds
  (type 1) a service classified modified, else to 1 when some exception record of that date
  removes (type 2) a service classified weekday, and has no entry for the date otherwise.
  On every table, with rows that repeat a pair or not, the same holds of the records in
  force, the last row of each pair. Every value of the map is 1 or 2, and every key is a
  date of the exception table.
\<close>

theorem C3_compactHolidays3:
  assumes "plainFeed f"
  shows "(distinct (map (\<lambda>cd. (cd_date cd, cd_service_id cd)) (calendarDates3 f)) \<longrightarrow>
          map_of (snap3_holidays (compactor3 engine f)) d =
            (if \<exists>cd \<in> set (calendarDates3 f). cd_date cd = d \<and> cd_exception_type cd = Some 1 \<and>
                  classifyService3 (map_of (services (calendar3 f)) (cd_service_id cd)) = ''modified''
             then Some (JNum 2)
             else if \<exists>cd \<in> set (calendarDates3 f). cd_date cd = d \<and> cd_exception_type cd = Some 2 \<and>
                  classifyService3 (map_of (services (calendar3 f)) (cd_service_id cd)) = ''weekday''
             then Some (JNum 1) else None))
       \<and> map_of (snap3_holidays (compactor3 engine f)) d =
            (if \<exists>sid cd. lastException (calendarDates3 f) d sid = Some cd \<and>
                  cd_exception_type cd = Some 1 \<and>
                  classifyService3 (map_of (services (calendar3 f)) sid) = ''modified''
             then Some (JNum 2)
             else if \<exists>sid cd. lastException (calendarDates3 f) d sid = Some cd \<and>
                  cd_exception_type cd = Some 2 \<and>
                  classifyService3 (map_of (services (calendar3 f)) sid) = ''weekday''
             then Some (JNum 1) else None)
       \<and> (map_of (snap3_holidays (compactor3 engine f)) d = Some v \<longrightarrow>
            (v = JNum 1 \<or> v = JNum 2) \<and> d \<in> cd_date ` set (calendarDates3 f))"
proof -
  let ?cds = "calendarDates3 f" and ?sv = "services (calendar3 f)"
  let ?M = "\<lambda>sid cd. lastException ?cds d sid = Some cd \<and> cd_exception_type cd = Some 1 \<and>
                  classifyService3 (map_of ?sv sid) = ''modified''"
  let ?W = "\<lambda>sid cd. lastException ?cds d sid = Some cd \<and> cd_exception_type cd = Some 2 \<and>
                  classifyService3 (map_of ?sv sid) = ''weekday''"
  have gen: "map_of (snap3_holidays (compactor3 engine f)) d =
            (if \<exists>sid cd. ?M sid cd then Some (JNum 2)
             else if \<exists>sid cd. ?W sid cd then Some (JNum 1) else None)"
    by (simp only: compactor3_def snapshot3.select_convs holidays3_lookup
        classify3_modified classify3_weekday)
  have in_set: "lastException ?cds d sid = Some cd \<Longrightarrow> cd \<in> set ?cds \<and> cd_date cd = d"
    for sid cd
    using find_SomeD[of "\<lambda>cd. cd_date cd = d \<and> cd_service_id cd = sid" "rev ?cds" cd]
    by (simp add: lastException_def)
  have vals: "map_of (snap3_holidays (compactor3 engine f)) d = Some v \<longrightarrow>
            (v = JNum 1 \<or> v = JNum 2) \<and> d \<in> cd_date ` set ?cds"
    unfolding gen using in_set by (auto split: if_splits)
  have dist: "map_of (snap3_holidays (compactor3 engine f)) d =
            (if \<exists>cd \<in> set ?cds. cd_date cd = d \<and> cd_exception_type cd = Some 1 \<and>
                  classifyService3 (map_of ?sv (cd_service_id cd)) = ''modified''
             then Some (JNum 2)
             else if \<exists>cd \<in> set ?cds. cd_date cd = d \<and> cd_exception_type cd = Some 2 \<and>
                  classifyService3 (map_of ?sv (cd_service_id cd)) = ''weekday''
             then Some (JNum 1) else None)"
    if u: "distinct (map (\<lambda>cd. (cd_date cd, cd_service_id cd)) ?cds)"
  proof -
    have 1: "(\<exists>sid cd. ?M sid cd) \<longleftrightarrow>
       (\<exists>cd \<in> set ?cds. cd_date cd = d \<and> cd_exception_type cd = Some 1 \<and>
                  classifyService3 (map_of ?sv (cd_service_id cd)) = ''modified'')"
      unfolding lastException_distinct[OF u] by blast
    have 2: "(\<exists>sid cd. ?W sid cd) \<longleftrightarrow>
       (\<exists>cd \<in> set ?cds. cd_date cd = d \<and> cd_exception_type cd = Some 2 \<and>
                  classifyService3 (map_of ?sv (cd_service_id cd)) = ''weekday'')"
      unfolding lastException_distinct[OF u] by blast
    show ?thesis unfolding gen 1 2 ..
  qed
  show ?thesis using gen vals dist by blast
qed

theorem C3_compactHolidays3_witness:
  "plainFeed holidayFeed3
   \<and> distinct (map (\<lambda>cd. (cd_date cd, cd_service_id cd)) (calendarDates3 holidayFeed3))
   \<and> map_of (snap3_holidays (compactor3 id holidayFeed3)) ''20260119'' = Some (JNum 2)
   \<and> map_of (snap3_holidays (compactor3 id holidayFeed3)) ''20260101'' = Some (JNum 1)
   \<and> map_of (snap3_holidays (compactor3 id holidayFeed3)) ''20260102'' = None"
proof -
  let ?rhs = "\<lambda>d. (if \<exists>cd \<in> set (calendarDates3 holidayFeed3). cd_date cd = d \<and>
                  cd_exception_type cd = Some 1 \<and>
                  classifyService3 (map_of (services (calendar3 holidayFeed3))
                    (cd_service_id cd)) = ''modified''
             then Some (JNum 2)
             else if \<exists>cd \<in> set (calendarDates3 holidayFeed3). cd_date cd = d \<and>
                  cd_exception_type cd = Some 2 \<and>
                  classifyService3 (map_of (services (calendar3 holidayFeed3))
                    (cd_service_id cd)) = ''weekday''
             then Some (JNum 1) else None)"
  have p: "plainFeed holidayFeed3" by code_simp
  have u: "distinct (map (\<lambda>cd. (cd_date cd, cd_service_id cd)) (calendarDates3 holidayFeed3))"
    by code_simp
  have e: "map_of (snap3_holidays (compactor3 id holidayFeed3)) d = ?rhs d" for d
    using C3_compactHolidays3[OF p, of id d] u by blast
  have r1: "?rhs ''20260119'' = Some (JNum 2)" by code_simp
  have r2: "?rhs ''20260101'' = Some (JNum 1)" by code_simp
  have r3: "?rhs ''20260102'' = None" by code_simp
  show ?thesis using p u e[of "''20260119''"] e[of "''20260101''"] e[of "''20260102''"] r1 r2 r3
    by simp
qed

subsection \<open>The departures of the snapshot\<close>

lemma addStopTime3_entries:
  assumes "map_of (addStopTime3 ti ss sv ri st acc) sid = Some b"
    and "e \<in> set (northbound3 b) \<union> set (southbound3 b)"
  shows "(\<exists>b0. map_of acc sid = Some b0 \<and> e \<in> set (northbound3 b0) \<union> set (southbound3 b0)) \<or>
         (\<exists>trip'. map_of ti (st3_trip_id st) = Some trip' \<and>
            map_of ss (st3_stop_id st) = Some sid \<and> e = stopTimeEntry3 sv ri trip' st)"
  using assms
  by (auto simp: addStopTime3_def Let_def update_conv' split: option.splits if_splits)

lemma fold_addStopTime3_entries:
  assumes "map_of (fold (addStopTime3 ti ss sv ri) sts acc) sid = Some b"
    and "e \<in> set (northbound3 b) \<union> set (southbound3 b)"
  shows "(\<exists>b0. map_of acc sid = Some b0 \<and> e \<in> set (northbound3 b0) \<union> set (southbound3 b0)) \<or>
         (\<exists>st \<in> set sts. \<exists>trip'. map_of ti (st3_trip_id st) = Some trip' \<and>
            map_of ss (st3_stop_id st) = Some sid \<and> e = stopTimeEntry3 sv ri trip' st)"
  using assms
proof (induction sts arbitrary: acc)
  case Nil
  then show ?case by simp
next
  case (Cons st sts)
  from Cons.prems
  have "map_of (fold (addStopTime3 ti ss sv ri) sts (addStopTime3 ti ss sv ri st acc)) sid = Some b"
    by simp
  from Cons.IH[OF this Cons.prems(2)]
  show ?case
  proof
    assume "\<exists>b0. map_of (addStopTime3 ti ss sv ri st acc) sid = Some b0 \<and>
              e \<in> set (northbound3 b0) \<union> set (southbound3 b0)"
    then obtain b0 where "map_of (addStopTime3 ti ss sv ri st acc) sid = Some b0"
      and "e \<in> set (northbound3 b0) \<union> set (southbound3 b0)" by blast
    from addStopTime3_entries[OF this] show ?thesis by auto
  next
    assume "\<exists>st \<in> set sts. \<exists>trip'. map_of ti (st3_trip_id st) = Some trip' \<and>
            map_of ss (st3_stop_id st) = Some sid \<and> e = stopTimeEntry3 sv ri trip' st"
    then show ?thesis by auto
  qed
qed










lemma sorted_dedupe3_sort:
  assumes "list_all (\<lambda>e. e3_t e \<noteq> None) xs"
  shows "sorted (map (\<lambda>e. case e3_t e of Some t \<Rightarrow> t | None \<Rightarrow> 0)
                  (dedupe3 (sortByTime engine xs)))"
proof -
  let ?k = "\<lambda>e. case e3_t e of Some t \<Rightarrow> t | None \<Rightarrow> (0::int)"
  let ?arr = "sort_key ?k xs"
  have s: "sortByTime engine xs = ?arr" using assms by (simp add: sortByTime_def)
  have "sorted (map ?k (map snd (enumerate 0 ?arr)))"
    by (simp only: map_snd_enumerate sorted_sort_key)
  then have "sorted (map (?k \<circ> snd) (enumerate 0 ?arr))" by (simp only: map_map)
  then have "sorted (map (?k \<circ> snd) (filter (\<lambda>(idx, item). idx = 0
        \<or> strictNe (e3_t item) (e3_t (?arr ! (idx - 1))) \<or> e3_n item \<noteq> e3_n (?arr ! (idx - 1)))
      (enumerate 0 ?arr)))"
    by (rule sorted_filter)
  then show ?thesis unfolding s dedupe3_def by (simp only: map_map)
qed

lemma map_of_sortAndDedupe3:
  "map_of (sortAndDedupe3 engine s) sid =
     map_option (\<lambda>b. \<lparr>northbound3 = dedupe3 (sortByTime engine (northbound3 b)),
                        southbound3 = dedupe3 (sortByTime engine (southbound3 b))\<rparr>) (map_of s sid)"
  unfolding sortAndDedupe3_def by (simp add: map_of_map)

lemma map_of_compactSchedule3:
  "map_of (compactSchedule3 s) sid =
     map_option (\<lambda>b. \<lparr>cb3_n = map compactEntry3 (northbound3 b),
                        cb3_s = map compactEntry3 (southbound3 b)\<rparr>) (map_of s sid)"
  unfolding compactSchedule3_def by (simp add: map_of_map)

lemma snapshot3_bucket:
  "map_of (snap3_schedule (compactor3 engine f)) sid =
     map_option (\<lambda>b. \<lparr>cb3_n = map compactEntry3 (dedupe3 (sortByTime engine (northbound3 b))),
                        cb3_s = map compactEntry3 (dedupe3 (sortByTime engine (southbound3 b)))\<rparr>)
       (map_of (buildSchedule3 f) sid)"
  by (simp add: compactor3_def map_of_compactSchedule3 map_of_sortAndDedupe3 option.map_comp
      comp_def)

text \<open>
  When every departure time of the feed is a number, every bucket of the snapshot of the
  three-way compactor is in ascending order of the minute.
\<close>

lemma snapshot3_bucket_sorted:
  assumes num: "\<forall>st \<in> set (stopTimes3 f). minutesOf st \<noteq> None"
    and cb: "map_of (snap3_schedule (compactor3 engine f)) sid = Some cb"
  shows "sorted (map minuteKey (cb3_n cb)) \<and> sorted (map minuteKey (cb3_s cb))"
proof -
  from cb obtain b where b: "map_of (buildSchedule3 f) sid = Some b"
    and c: "cb = \<lparr>cb3_n = map compactEntry3 (dedupe3 (sortByTime engine (northbound3 b))),
                  cb3_s = map compactEntry3 (dedupe3 (sortByTime engine (southbound3 b)))\<rparr>"
    by (auto simp: snapshot3_bucket)
  have n: "e3_t e \<noteq> None" if "e \<in> set (northbound3 b) \<union> set (southbound3 b)" for e
  proof -
    from fold_addStopTime3_entries[OF b[unfolded buildSchedule3_def] that]
    obtain st trip' where "st \<in> set (stopTimes3 f)"
      and "e = stopTimeEntry3 (services (calendar3 f)) (routeInfo (routes3 f)) trip' st"
      by auto
    with num show ?thesis by (simp add: stopTimeEntry3_def)
  qed
  have ln: "list_all (\<lambda>e. e3_t e \<noteq> None) (northbound3 b)"
    and ls: "list_all (\<lambda>e. e3_t e \<noteq> None) (southbound3 b)"
    using n by (simp_all add: list_all_iff)
  have m: "map minuteKey (map compactEntry3 es) =
           map (\<lambda>e. case e3_t e of Some t \<Rightarrow> t | None \<Rightarrow> 0) es" for es
    by (simp add: minuteKey_def minute3_def compactEntry3_def)
  show ?thesis
    unfolding c compact_buckets3.select_convs m
    using sorted_dedupe3_sort[OF ln] sorted_dedupe3_sort[OF ls] by blast
qed




subsection \<open>Order and duplicates\<close>

lemma sorted_dedupe_sort: "sorted (map e_t (dedupe (sort_key e_t xs)))"
proof -
  let ?arr = "sort_key e_t xs"
  have "sorted (map e_t (map snd (enumerate 0 ?arr)))"
    by (simp only: map_snd_enumerate sorted_sort_key)
  then have "sorted (map (e_t \<circ> snd) (enumerate 0 ?arr))" by (simp only: map_map)
  then have "sorted (map (e_t \<circ> snd) (filter (\<lambda>(idx, item). idx = 0
        \<or> e_t item \<noteq> e_t (?arr ! (idx - 1)) \<or> e_n item \<noteq> e_n (?arr ! (idx - 1)))
      (enumerate 0 ?arr)))"
    by (rule sorted_filter)
  then show ?thesis unfolding dedupe_def by (simp only: map_map)
qed

lemma map_of_sortAndDedupe:
  "map_of (sortAndDedupe s) sid =
     map_option (\<lambda>b. \<lparr>northbound = dedupe (sort_key e_t (northbound b)),
                        southbound = dedupe (sort_key e_t (southbound b))\<rparr>) (map_of s sid)"
  unfolding sortAndDedupe_def by (simp add: map_of_map)

lemma map_of_compactSchedule:
  "map_of (compactSchedule s) sid =
     map_option (\<lambda>b. \<lparr>cb_n = map compactEntry (northbound b),
                        cb_s = map compactEntry (southbound b)\<rparr>) (map_of s sid)"
  unfolding compactSchedule_def by (simp add: map_of_map)

lemma snapshot_bucket:
  assumes "map_of (snap_schedule (compactor f)) sid = Some cb"
  shows "\<exists>b. map_of (buildSchedule f) sid = Some b \<and>
           cb = \<lparr>cb_n = map compactEntry (dedupe (sort_key e_t (northbound b))),
                 cb_s = map compactEntry (dedupe (sort_key e_t (southbound b)))\<rparr>"
  using assms by (auto simp: compactor_def map_of_compactSchedule map_of_sortAndDedupe)

text \<open>
  Every bucket of a snapshot emitted by process-gtfs.js, on a feed of its model (numeric
  departure times), is in ascending order of the minute.
\<close>

lemma snapshot_bucket_sorted:
  assumes "map_of (snap_schedule (compactor f)) sid = Some cb"
  shows "sorted (map minute (cb_n cb)) \<and> sorted (map minute (cb_s cb))"
proof -
  have m: "map minute (map compactEntry es) = map e_t es" for es
    by (simp add: minute_def compactEntry_def)
  from snapshot_bucket[OF assms] show ?thesis
    by (auto simp only: m sorted_dedupe_sort compact_buckets.simps)
qed

text \<open>
  Claim C5 (the code departs from it). In the sample feed the weekday train 101 leaves at
  5:10 under two trip records, and the weekend train 201, leaving at the same minute,
  stands between them. The sort orders by the minute alone and keeps the three in place;
  the filter compares each entry with its predecessor only, so both records of train 101
  stay, and the weekday bucket of the station holds the minute 310 and the train 101 twice.
\<close>

theorem C5_duplicate_survives:
  "map_of (snap_schedule (compactor dupFeed)) ''sf'' =
     Some \<lparr>cb_n = [],
           cb_s = [(310, ''101'', 0, 0), (310, ''201'', 0, 1), (310, ''101'', 0, 0)]\<rparr>
   \<and> filter (\<lambda>d. serviceType d = 0)
        [(310, ''101'', 0, 0), (310, ''201'', 0, 1), (310, ''101'', 0, 0)] =
       [(310, ''101'', 0, 0), (310, ''101'', 0, 0)]"
  by code_simp

text \<open>
  The three-way compactor sorts and filters with the same statements, and keeps the
  duplicate too.
\<close>

lemma duplicate_survives_three_way:
  "map_of (snap3_schedule (compactor3 engine dupFeed3)) ''sf'' =
     Some \<lparr>cb3_n = [],
           cb3_s = [(Some 310, ''101'', 0, 0), (Some 310, ''201'', 0, 1),
                    (Some 310, ''101'', 0, 0)]\<rparr>"
  by code_simp

end
